theory Spec2Isabelle
  imports Complex_Main
begin

section \<open>JavaScript numbers\<close>

text \<open>
  The component computes with JavaScript numbers, IEEE 754 doubles. They are modelled as
  the reals extended by the two infinities and NaN, because the default props already use
  them (\<^verbatim>\<open>maxZoom: Infinity\<close>) and because division by zero yields them. A sum,
  product or quotient of finite values is the exact result rounded to the nearest double,
  so \<^verbatim>\<open>1 / scale / scale\<close> and \<^verbatim>\<open>1 / (scale * scale)\<close> need not be the same number.
  Comparison, negation, \<^verbatim>\<open>Math.max\<close> and \<^verbatim>\<open>Math.min\<close> are exact. The exponent range
  (overflow to an infinity, underflow) and the sign of zero are not modelled.
\<close>

datatype number = NaN | NegInf | Fin real | PosInf

text \<open>Rounding to the nearest integer, a tie going to the even one.\<close>

definition round_even :: "real \<Rightarrow> int" where
  "round_even y =
     (let n = \<lfloor>y\<rfloor>; d = y - of_int n
      in if d < 1 / 2 then n else if 1 / 2 < d then n + 1 else if even n then n else n + 1)"

text \<open>
  Rounding to the nearest double: the doubles between \<open>2 powi e\<close> and \<open>2 powi (e + 1)\<close>
  are the multiples of \<open>2 powi (e - 52)\<close> (a significand of 53 bits), and a real in that
  range is rounded to the nearest of them, a tie going to the even multiple.
\<close>

definition fl :: "real \<Rightarrow> real" where
  "fl x =
     (let u = 2 powi (\<lfloor>log 2 \<bar>x\<bar>\<rfloor> - 52)
      in sgn x * (of_int (round_even (\<bar>x\<bar> / u)) * u))"

fun is_neg :: "number \<Rightarrow> bool" where
  "is_neg NegInf = True"
| "is_neg (Fin a) = (a < 0)"
| "is_neg _ = False"

text \<open>\<^verbatim>\<open>a >= b\<close>: false as soon as one side is NaN.\<close>

fun num_ge :: "number \<Rightarrow> number \<Rightarrow> bool" where
  "num_ge NaN _ = False"
| "num_ge _ NaN = False"
| "num_ge PosInf _ = True"
| "num_ge _ NegInf = True"
| "num_ge (Fin a) (Fin b) = (b \<le> a)"
| "num_ge _ _ = False"

text \<open>\<^verbatim>\<open>a !== b\<close> on numbers: NaN differs from everything, itself included.\<close>

definition num_neq :: "number \<Rightarrow> number \<Rightarrow> bool" where
  "num_neq a b = (a = NaN \<or> b = NaN \<or> a \<noteq> b)"

text \<open>\<^verbatim>\<open>!a\<close> on a number: zero and NaN are falsy.\<close>

definition falsy :: "number \<Rightarrow> bool" where
  "falsy a = (a = Fin 0 \<or> a = NaN)"

text \<open>\<^verbatim>\<open>Math.max(a, b)\<close> and \<^verbatim>\<open>Math.min(a, b)\<close>: NaN as soon as one argument is.\<close>

definition num_max :: "number \<Rightarrow> number \<Rightarrow> number" where
  "num_max a b = (if a = NaN \<or> b = NaN then NaN else if num_ge a b then a else b)"

definition num_min :: "number \<Rightarrow> number \<Rightarrow> number" where
  "num_min a b = (if a = NaN \<or> b = NaN then NaN else if num_ge a b then b else a)"

fun num_add :: "number \<Rightarrow> number \<Rightarrow> number" where
  "num_add NaN _ = NaN"
| "num_add _ NaN = NaN"
| "num_add (Fin a) (Fin b) = Fin (fl (a + b))"
| "num_add PosInf NegInf = NaN"
| "num_add NegInf PosInf = NaN"
| "num_add PosInf _ = PosInf"
| "num_add _ PosInf = PosInf"
| "num_add NegInf _ = NegInf"
| "num_add _ NegInf = NegInf"

fun num_neg :: "number \<Rightarrow> number" where
  "num_neg NaN = NaN"
| "num_neg NegInf = PosInf"
| "num_neg (Fin a) = Fin (- a)"
| "num_neg PosInf = NegInf"

definition num_sub :: "number \<Rightarrow> number \<Rightarrow> number" where
  "num_sub a b = num_add a (num_neg b)"

text \<open>\<^verbatim>\<open>a * b\<close>: an infinity times zero is NaN, otherwise the signs decide.\<close>

fun num_mul :: "number \<Rightarrow> number \<Rightarrow> number" where
  "num_mul NaN _ = NaN"
| "num_mul _ NaN = NaN"
| "num_mul (Fin a) (Fin b) = Fin (fl (a * b))"
| "num_mul a b =
     (if a = Fin 0 \<or> b = Fin 0 then NaN
      else if is_neg a = is_neg b then PosInf else NegInf)"

text \<open>
  \<^verbatim>\<open>a / b\<close>: a finite nonzero value over zero is an infinity, \<^verbatim>\<open>0 / 0\<close> and an
  infinity over an infinity are NaN, a finite value over an infinity is zero.
\<close>

fun num_div :: "number \<Rightarrow> number \<Rightarrow> number" where
  "num_div NaN _ = NaN"
| "num_div _ NaN = NaN"
| "num_div (Fin a) (Fin b) =
     (if b \<noteq> 0 then Fin (fl (a / b))
      else if a = 0 then NaN
      else if 0 < a then PosInf else NegInf)"
| "num_div (Fin a) _ = Fin 0"
| "num_div a (Fin b) = (if is_neg a = (b < 0) then PosInf else NegInf)"
| "num_div _ _ = NaN"

type_synonym point = "number \<times> number"

text \<open>An extent \<^verbatim>\<open>[[x0, y0], [x1, y1]]\<close>; bounds have the same shape.\<close>

type_synonym extent = "point \<times> point"

section \<open>The path generator\<close>

text \<open>
  \<^verbatim>\<open>createPathGenerator(scale, translate, clipExtent)\<close> wraps a \<^verbatim>\<open>geoTransform\<close> whose
  \<^verbatim>\<open>point(x, y, z)\<close> method forwards the transformed point to the clip stream when the
  weight \<^verbatim>\<open>z\<close> reaches the area threshold, and forwards nothing otherwise. The result
  \<open>Some p\<close> stands for the call \<^verbatim>\<open>this.stream.point(pointX, pointY)\<close>.
\<close>

definition point :: "number \<Rightarrow> point \<Rightarrow> number \<times> number \<times> number \<Rightarrow> point option" where
  "point k t p =
     (case p of (x, y, z) \<Rightarrow>
        let area = num_div (num_div (Fin 1) k) k;
            pointX = num_add (num_mul x k) (fst t);
            pointY = num_add (num_mul y k) (snd t)
        in if num_ge z area then Some (pointX, pointY) else None)"

text \<open>
  A path generator is the point transform together with the clip extent its output
  streams into. The component owns one \<^verbatim>\<open>geoClipExtent\<close> object and every transition
  that changes its extent also rebuilds the generator kept in the state, so the generator
  is modelled with the extent it was built with.
\<close>

record pathGenerator =
  stream_point :: "number \<times> number \<times> number \<Rightarrow> point option"
  clip :: extent

definition createPathGenerator :: "number \<Rightarrow> point \<Rightarrow> extent \<Rightarrow> pathGenerator" where
  "createPathGenerator k t ce = \<lparr>stream_point = point k t, clip = ce\<rparr>"

section \<open>Processed data\<close>

text \<open>
  lodash's \<^verbatim>\<open>keyBy(collection, iteratee)\<close> builds an object by assigning every element
  in array order under the key its iteratee returns, so a later element replaces an
  earlier one with the same key. JavaScript turns the iteratee's value into a property
  key; \<open>toKey\<close> is that coercion.
\<close>

definition keyBy :: "('v \<Rightarrow> string) \<Rightarrow> 'd list \<Rightarrow> ('d \<Rightarrow> 'v) \<Rightarrow> (string \<rightharpoonup> 'd)" where
  "keyBy toKey collection iteratee =
     foldl (\<lambda>result datum. result(toKey (iteratee datum) \<mapsto> datum)) Map.empty collection"

text \<open>
  \<^verbatim>\<open>processData(data, keyField)\<close>. The helper \<^verbatim>\<open>propResolver\<close> lives in the utilities
  that are not part of the sources at hand, so it is a parameter.
\<close>

definition processData ::
  "('d \<Rightarrow> 'a \<Rightarrow> 'v) \<Rightarrow> ('v \<Rightarrow> string) \<Rightarrow> 'd list \<Rightarrow> 'a \<Rightarrow> (string \<rightharpoonup> 'd)" where
  "processData propResolver toKey ds kf =
     keyBy toKey ds (\<lambda>datum. propResolver datum kf)"

section \<open>Layers, props and state\<close>

text \<open>
  The topology, the layer array and the data array are compared by reference
  (\<^verbatim>\<open>!==\<close>), so each of them is an object with an address and a value.
\<close>

datatype 'a obj = Obj (addr: nat) (val: 'a)

type_synonym style = "string \<rightharpoonup> string"

text \<open>
  A layer's \<^verbatim>\<open>style\<close> is optional and is an object or a function of the feature
  (\<^verbatim>\<open>PropTypes.oneOfType([PropTypes.object, PropTypes.func])\<close>). The feature handed to
  a mesh layer's style function is \<^verbatim>\<open>cache.mesh[layer.name]\<close>, which may be undefined.
\<close>

datatype 'g layerStyle = NoStyle | StyleObject style | StyleFunction "'g option \<Rightarrow> style"

record 'g layer =
  name :: string
  type :: string
  object :: string
  visible :: bool
  style :: "'g layerStyle"
  selectedStyle :: "'g layerStyle"
  className :: string
  selectedClassName :: string

text \<open>
  The extracted geometry \<^verbatim>\<open>{ feature: {name: FeatureCollection}, mesh: {name: geometry} }\<close>.
  A feature collection is represented by its \<^verbatim>\<open>features\<close> array.
\<close>

record 'g geoJSON =
  feature :: "string \<rightharpoonup> 'g list"
  mesh :: "string \<rightharpoonup> 'g"

definition emptyGeoJSON :: "'g geoJSON" where
  "emptyGeoJSON = \<lparr>feature = Map.empty, mesh = Map.empty\<rparr>"

text \<open>\<^verbatim>\<open>has(cache[layer.type], layer.name)\<close>; \<^verbatim>\<open>cache[t]\<close> is undefined for any other \<open>t\<close>.\<close>

definition has :: "'g geoJSON \<Rightarrow> string \<Rightarrow> string \<Rightarrow> bool" where
  "has c t n =
     (if t = ''feature'' then feature c n \<noteq> None
      else if t = ''mesh'' then mesh c n \<noteq> None
      else False)"

text \<open>
  The props the component itself reads. \<open>forwarded\<close> gathers the props it only hands on
  to its children (\<^verbatim>\<open>colorScale\<close>, \<^verbatim>\<open>geometryKeyField\<close>, \<^verbatim>\<open>valueField\<close>,
  \<^verbatim>\<open>selectedLocations\<close>, the pointer callbacks, class names and inline styles).
\<close>

record ('t, 'g, 'd, 'a, 'h) props =
  topology :: "'t obj"
  layers :: "'g layer list obj"
  width :: number
  height :: number
  minZoom :: number
  maxZoom :: number
  zoomStep :: number
  data :: "'d list obj"
  keyField :: 'a
  controls :: bool
  forwarded :: 'h

record ('g, 'd) state =
  bounds :: extent
  scale :: number
  scaleBase :: number
  translate :: point
  pathGenerator :: pathGenerator
  cache :: "'g geoJSON"
  processedData :: "string \<rightharpoonup> 'd"

text \<open>
  The helpers imported from \<^verbatim>\<open>'../../../utils'\<close> and topojson's \<^verbatim>\<open>presimplify\<close> are
  not among the sources at hand. They are parameters of the model, assumed to return.
  \<open>quickMerge U c e\<close> stands for \<^verbatim>\<open>quickMerge({}, c, e)\<close>, \<open>calcTranslate\<close> takes its
  optional \<^verbatim>\<open>center\<close> as an option, and \<open>toPropertyKey\<close> is JavaScript's coercion of
  a value to an object key.
\<close>

record ('t, 'g, 'd, 'a, 'v) utils =
  presimplify :: "'t \<Rightarrow> 't"
  extractGeoJSON :: "'t \<Rightarrow> 'g layer list \<Rightarrow> 'g geoJSON"
  concatAndComputeGeoJSONBounds :: "'g geoJSON \<Rightarrow> extent"
  calcScale :: "number \<Rightarrow> number \<Rightarrow> extent \<Rightarrow> number"
  calcTranslate :: "number \<Rightarrow> number \<Rightarrow> number \<Rightarrow> extent \<Rightarrow> point option \<Rightarrow> point"
  calcCenterPoint :: "number \<Rightarrow> number \<Rightarrow> number \<Rightarrow> point \<Rightarrow> point"
  quickMerge :: "'g geoJSON \<Rightarrow> 'g geoJSON \<Rightarrow> 'g geoJSON"
  propResolver :: "'d \<Rightarrow> 'a \<Rightarrow> 'v"
  toPropertyKey :: "'v \<Rightarrow> string"

section \<open>The component instance\<close>

text \<open>A d3 zoom transform \<^verbatim>\<open>{k, x, y}\<close>.\<close>

datatype transform = Transform (tk: number) (tx: number) (ty: number)

definition zoomIdentity :: transform where
  "zoomIdentity = Transform (Fin 1) (Fin 0) (Fin 0)"

text \<open>The d3 zoom behaviour \<^verbatim>\<open>this.zoom\<close>; the component configures its scale extent only.\<close>

record zoomBehavior =
  scaleExtent :: "number \<times> number"

text \<open>
  Beside props and state the instance owns the clip extent, the zoom behaviour, the
  reference to the svg node and the cache of the memoized \<^verbatim>\<open>calcMeshLayerStyle\<close>. The svg
  node is represented by the zoom transform d3 stores on it (\<^verbatim>\<open>node.__zoom\<close>);
  \<open>None\<close> means that \<^verbatim>\<open>_svgNode\<close> and \<^verbatim>\<open>_svgSelection\<close> are not set.
\<close>

record ('t, 'g, 'd, 'a, 'h) choropleth =
  props :: "('t, 'g, 'd, 'a, 'h) props"
  state :: "('g, 'd) state"
  clipExtent :: extent
  zoom :: zoomBehavior
  svgNode :: "transform option"
  meshStyles :: "string \<rightharpoonup> style"

datatype error = TypeError

definition CLIP_EXTENT_PADDING :: number where
  "CLIP_EXTENT_PADDING = Fin 1"

definition paddedExtent :: "number \<Rightarrow> number \<Rightarrow> extent" where
  "paddedExtent w h =
     ((num_neg CLIP_EXTENT_PADDING, num_neg CLIP_EXTENT_PADDING),
      (num_add w CLIP_EXTENT_PADDING, num_add h CLIP_EXTENT_PADDING))"

definition constructor ::
  "('t, 'g, 'd, 'a, 'v) utils \<Rightarrow> ('t, 'g, 'd, 'a, 'h) props \<Rightarrow> ('t, 'g, 'd, 'a, 'h) choropleth" where
  "constructor U p =
     (let extractedGeoJSON = extractGeoJSON U (presimplify U (val (topology p))) (val (layers p));
          b = concatAndComputeGeoJSONBounds U extractedGeoJSON;
          k = calcScale U (width p) (height p) b;
          t = calcTranslate U (width p) (height p) k b None;
          ce = paddedExtent (width p) (height p)
      in \<lparr>props = p,
          state = \<lparr>bounds = b, scale = k, scaleBase = k, translate = t,
                   pathGenerator = createPathGenerator k t ce,
                   cache = extractedGeoJSON,
                   processedData =
                     processData (propResolver U) (toPropertyKey U) (val (data p)) (keyField p)\<rparr>,
          clipExtent = ce,
          zoom = \<lparr>scaleExtent = (num_max k (minZoom p), num_max k (maxZoom p))\<rparr>,
          svgNode = None,
          meshStyles = Map.empty\<rparr>)"

text \<open>\<^verbatim>\<open>saveSvgRef(ref)\<close>: React passes the node on mount and \<^verbatim>\<open>null\<close> on unmount.\<close>

definition saveSvgRef ::
  "('t, 'g, 'd, 'a, 'h) choropleth \<Rightarrow> transform option \<Rightarrow> ('t, 'g, 'd, 'a, 'h) choropleth" where
  "saveSvgRef i ref = i\<lparr>svgNode := ref\<rparr>"

definition currentZoomTransform :: "('t, 'g, 'd, 'a, 'h) choropleth \<Rightarrow> transform" where
  "currentZoomTransform i = (case svgNode i of None \<Rightarrow> zoomIdentity | Some t \<Rightarrow> t)"

text \<open>\<^verbatim>\<open>zoomEvent()\<close>; \<^verbatim>\<open>setState\<close> merges the three keys into the state.\<close>

definition zoomEvent :: "('t, 'g, 'd, 'a, 'h) choropleth \<Rightarrow> ('t, 'g, 'd, 'a, 'h) choropleth" where
  "zoomEvent i =
     (let transform = currentZoomTransform i;
          k = tk transform;
          t = (tx transform, ty transform);
          pg = createPathGenerator k t (clipExtent i)
      in i\<lparr>state := (state i)\<lparr>scale := k, translate := t, pathGenerator := pg\<rparr>\<rparr>)"

section \<open>The zoom controller\<close>

text \<open>
  Modelled from the spec: the gesture controller is d3's zoom behaviour, a dependency whose
  code is not under the sources at hand. Applying a transform to the view
  (\<^verbatim>\<open>this._svgSelection.call(this.zoom.transform, t)\<close>) stores \<open>t\<close> on the node as it is
  and emits a zoom event, which the component handles with \<^verbatim>\<open>zoomEvent\<close>. Without a
  selection the call fails.
\<close>

definition zoom_transform ::
  "('t, 'g, 'd, 'a, 'h) choropleth \<Rightarrow> transform \<Rightarrow> error + ('t, 'g, 'd, 'a, 'h) choropleth" where
  "zoom_transform i t =
     (case svgNode i of
        None \<Rightarrow> Inl TypeError
      | Some _ \<Rightarrow> Inr (zoomEvent (i\<lparr>svgNode := Some t\<rparr>)))"

text \<open>
  Modelled from the spec: \<^verbatim>\<open>this._svgSelection.call(this.zoom.scaleBy, f)\<close> multiplies
  the current scale by \<open>f\<close>, clamps the product to the scale extent
  (\<^verbatim>\<open>Math.max(k0, Math.min(k1, k))\<close>), keeps the point at the centre of the viewport
  fixed, and emits a zoom event.
\<close>

definition zoom_scaleBy ::
  "('t, 'g, 'd, 'a, 'h) choropleth \<Rightarrow> number \<Rightarrow> error + ('t, 'g, 'd, 'a, 'h) choropleth" where
  "zoom_scaleBy i f =
     (case svgNode i of
        None \<Rightarrow> Inl TypeError
      | Some t0 \<Rightarrow>
          let k1 = num_max (fst (scaleExtent (zoom i)))
                     (num_min (snd (scaleExtent (zoom i))) (num_mul (tk t0) f));
              p0 = (num_div (width (props i)) (Fin 2), num_div (height (props i)) (Fin 2));
              p1 = (num_div (num_sub (fst p0) (tx t0)) (tk t0),
                    num_div (num_sub (snd p0) (ty t0)) (tk t0));
              t1 = Transform k1 (num_sub (fst p0) (num_mul (fst p1) k1))
                                (num_sub (snd p0) (num_mul (snd p1) k1))
          in Inr (zoomEvent (i\<lparr>svgNode := Some t1\<rparr>)))"

text \<open>
  \<^verbatim>\<open>componentDidMount()\<close> registers \<^verbatim>\<open>zoomEvent\<close> as the zoom listener and applies
  \<^verbatim>\<open>zoomIdentity.translate(x, y).scale(this.state.scale)\<close>, the transform
  \<^verbatim>\<open>{k: scale, x, y}\<close>.
\<close>

definition componentDidMount ::
  "('t, 'g, 'd, 'a, 'h) choropleth \<Rightarrow> error + ('t, 'g, 'd, 'a, 'h) choropleth" where
  "componentDidMount i =
     (case translate (state i) of (x, y) \<Rightarrow> zoom_transform i (Transform (scale (state i)) x y))"

definition zoomIn ::
  "('t, 'g, 'd, 'a, 'h) choropleth \<Rightarrow> error + ('t, 'g, 'd, 'a, 'h) choropleth" where
  "zoomIn i = zoom_scaleBy i (zoomStep (props i))"

definition zoomOut ::
  "('t, 'g, 'd, 'a, 'h) choropleth \<Rightarrow> error + ('t, 'g, 'd, 'a, 'h) choropleth" where
  "zoomOut i = zoom_scaleBy i (num_div (Fin 1) (zoomStep (props i)))"

definition zoomReset ::
  "('t, 'g, 'd, 'a, 'v) utils \<Rightarrow> ('t, 'g, 'd, 'a, 'h) choropleth
     \<Rightarrow> error + ('t, 'g, 'd, 'a, 'h) choropleth" where
  "zoomReset U i =
     (case calcTranslate U (width (props i)) (height (props i))
             (scaleBase (state i)) (bounds (state i)) None of
        (x, y) \<Rightarrow> zoom_transform i (Transform (scaleBase (state i)) x y))"

section \<open>Receiving new props\<close>

text \<open>
  The first block of \<^verbatim>\<open>componentWillReceiveProps\<close>: when the topology or the layer array
  changed, the visible layers that are mesh layers or are not in the cache are extracted
  and merged into the cache, and the bounds are recomputed. The result is the list handed
  to \<^verbatim>\<open>extractGeoJSON\<close> (empty when it is not called), \<^verbatim>\<open>state.cache\<close> and
  \<^verbatim>\<open>state.bounds\<close> (\<open>None\<close> when the key is not set).
\<close>

definition newGeometry ::
  "('t, 'g, 'd, 'a, 'v) utils \<Rightarrow> ('t, 'g, 'd, 'a, 'h) choropleth \<Rightarrow> ('t, 'g, 'd, 'a, 'h) props
     \<Rightarrow> 'g layer list \<times> 'g geoJSON option \<times> extent option" where
  "newGeometry U i nextProps =
     (if addr (topology nextProps) \<noteq> addr (topology (props i))
         \<or> addr (layers nextProps) \<noteq> addr (layers (props i))
      then
        let (topo, c) =
              (if addr (topology nextProps) = addr (topology (props i))
               then (val (topology nextProps), cache (state i))
               else (presimplify U (val (topology nextProps)), emptyGeoJSON));
            visibleLayers = filter visible (val (layers nextProps));
            uncachedLayers =
              filter (\<lambda>l. type l = ''mesh'' \<or> \<not> has c (type l) (name l)) visibleLayers
        in if uncachedLayers \<noteq> [] then
             let c' = quickMerge U c (extractGeoJSON U topo uncachedLayers);
                 b = concatAndComputeGeoJSONBounds U c'
             in (uncachedLayers, Some c', if b \<noteq> bounds (state i) then Some b else None)
           else ([], None, None)
      else ([], None, None))"

text \<open>
  The second block: on a resize or on new bounds, the new clip extent, \<^verbatim>\<open>scaleBase\<close>,
  \<^verbatim>\<open>scale\<close>, \<^verbatim>\<open>translate\<close> and path generator. \<open>nb\<close> is \<^verbatim>\<open>state.bounds\<close>.
\<close>

definition newView ::
  "('t, 'g, 'd, 'a, 'v) utils \<Rightarrow> ('t, 'g, 'd, 'a, 'h) choropleth \<Rightarrow> ('t, 'g, 'd, 'a, 'h) props
     \<Rightarrow> extent option \<Rightarrow> (extent \<times> number \<times> number \<times> point \<times> pathGenerator) option" where
  "newView U i nextProps nb =
     (if num_neq (width nextProps) (width (props i))
         \<or> num_neq (height nextProps) (height (props i))
         \<or> nb \<noteq> None
      then
        let ce = paddedExtent (width nextProps) (height nextProps);
            b = (case nb of Some b' \<Rightarrow> b' | None \<Rightarrow> bounds (state i));
            sb = calcScale U (width nextProps) (height nextProps) b;
            sc = num_mul sb (num_div (scale (state i)) (scaleBase (state i)));
            tr = (if nb \<noteq> None
                  then calcTranslate U (width nextProps) (height nextProps) sb b None
                  else
                    let transform = currentZoomTransform i;
                        center = calcCenterPoint U (width (props i)) (height (props i))
                                   (tk transform) (tx transform, ty transform)
                    in calcTranslate U (width nextProps) (height nextProps) sc b (Some center))
        in Some (ce, sb, sc, tr, createPathGenerator sc tr ce)
      else None)"

text \<open>The third block: new processed data when the data array changed.\<close>

definition newProcessedData ::
  "('t, 'g, 'd, 'a, 'v) utils \<Rightarrow> ('t, 'g, 'd, 'a, 'h) choropleth \<Rightarrow> ('t, 'g, 'd, 'a, 'h) props
     \<Rightarrow> (string \<rightharpoonup> 'd) option" where
  "newProcessedData U i nextProps =
     (if addr (data nextProps) \<noteq> addr (data (props i))
      then Some (processData (propResolver U) (toPropertyKey U)
                   (val (data nextProps)) (keyField nextProps))
      else None)"

text \<open>\<^verbatim>\<open>this.setState(state)\<close>: the keys that were set replace those of the state.\<close>

definition setState ::
  "('g, 'd) state \<Rightarrow> 'g geoJSON option \<Rightarrow> extent option
     \<Rightarrow> (number \<times> number \<times> point \<times> pathGenerator) option \<Rightarrow> (string \<rightharpoonup> 'd) option
     \<Rightarrow> ('g, 'd) state" where
  "setState s nc nb nv nd =
     (let s1 = (case nc of None \<Rightarrow> s | Some c \<Rightarrow> s\<lparr>cache := c\<rparr>);
          s2 = (case nb of None \<Rightarrow> s1 | Some b \<Rightarrow> s1\<lparr>bounds := b\<rparr>);
          s3 = (case nv of None \<Rightarrow> s2
                | Some (sb, sc, tr, pg) \<Rightarrow>
                    s2\<lparr>scaleBase := sb, scale := sc, translate := tr, pathGenerator := pg\<rparr>)
      in case nd of None \<Rightarrow> s3 | Some d \<Rightarrow> s3\<lparr>processedData := d\<rparr>)"

text \<open>
  \<^verbatim>\<open>componentWillReceiveProps(nextProps)\<close>. In the second block the clip extent is
  replaced and the new transform is applied to the view, which emits a zoom event before
  the new state is set.
\<close>

definition componentWillReceiveProps ::
  "('t, 'g, 'd, 'a, 'v) utils \<Rightarrow> ('t, 'g, 'd, 'a, 'h) choropleth \<Rightarrow> ('t, 'g, 'd, 'a, 'h) props
     \<Rightarrow> error + ('t, 'g, 'd, 'a, 'h) choropleth" where
  "componentWillReceiveProps U i nextProps =
     (case newGeometry U i nextProps of (extracted, nc, nb) \<Rightarrow>
        let nd = newProcessedData U i nextProps
        in (case newView U i nextProps nb of
              None \<Rightarrow> Inr (i\<lparr>state := setState (state i) nc nb None nd\<rparr>)
            | Some (ce, sb, sc, tr, pg) \<Rightarrow>
                (case zoom_transform (i\<lparr>clipExtent := ce\<rparr>) (Transform sc (fst tr) (snd tr)) of
                   Inl e \<Rightarrow> Inl e
                 | Inr i' \<Rightarrow>
                     Inr (i'\<lparr>state := setState (state i') nc nb (Some (sb, sc, tr, pg)) nd\<rparr>))))"

text \<open>A prop update: the hook runs, then the host makes \<^verbatim>\<open>nextProps\<close> the props.\<close>

definition receiveProps ::
  "('t, 'g, 'd, 'a, 'v) utils \<Rightarrow> ('t, 'g, 'd, 'a, 'h) choropleth \<Rightarrow> ('t, 'g, 'd, 'a, 'h) props
     \<Rightarrow> error + ('t, 'g, 'd, 'a, 'h) choropleth" where
  "receiveProps U i nextProps =
     (case componentWillReceiveProps U i nextProps of
        Inl e \<Rightarrow> Inl e
      | Inr i' \<Rightarrow> Inr (i'\<lparr>props := nextProps\<rparr>))"

section \<open>The mounted component as a state machine\<close>

text \<open>
  Mounting: the constructor runs, the svg node (with the identity transform) is saved,
  and \<^verbatim>\<open>componentDidMount\<close> applies the initial transform.
\<close>

definition mount ::
  "('t, 'g, 'd, 'a, 'v) utils \<Rightarrow> ('t, 'g, 'd, 'a, 'h) props
     \<Rightarrow> error + ('t, 'g, 'd, 'a, 'h) choropleth" where
  "mount U p = componentDidMount (saveSvgRef (constructor U p) (Some zoomIdentity))"

datatype ('t, 'g, 'd, 'a, 'h) event =
  PropsUpdate "('t, 'g, 'd, 'a, 'h) props" | ZoomIn | ZoomOut | ZoomReset

fun step ::
  "('t, 'g, 'd, 'a, 'v) utils \<Rightarrow> ('t, 'g, 'd, 'a, 'h) choropleth \<Rightarrow> ('t, 'g, 'd, 'a, 'h) event
     \<Rightarrow> error + ('t, 'g, 'd, 'a, 'h) choropleth" where
  "step U i (PropsUpdate nextProps) = receiveProps U i nextProps"
| "step U i ZoomIn = zoomIn i"
| "step U i ZoomOut = zoomOut i"
| "step U i ZoomReset = zoomReset U i"

fun run ::
  "('t, 'g, 'd, 'a, 'v) utils \<Rightarrow> ('t, 'g, 'd, 'a, 'h) choropleth
     \<Rightarrow> ('t, 'g, 'd, 'a, 'h) event list \<Rightarrow> error + ('t, 'g, 'd, 'a, 'h) choropleth" where
  "run U i [] = Inr i"
| "run U i (e # es) = (case step U i e of Inl err \<Rightarrow> Inl err | Inr i' \<Rightarrow> run U i' es)"

text \<open>The component mounted with props \<open>p\<close>, after the events \<open>es\<close>.\<close>

definition runMounted ::
  "('t, 'g, 'd, 'a, 'v) utils \<Rightarrow> ('t, 'g, 'd, 'a, 'h) props
     \<Rightarrow> ('t, 'g, 'd, 'a, 'h) event list \<Rightarrow> error + ('t, 'g, 'd, 'a, 'h) choropleth" where
  "runMounted U p es = (case mount U p of Inl err \<Rightarrow> Inl err | Inr i \<Rightarrow> run U i es)"



section \<open>Rendering\<close>

text \<open>
  \<^verbatim>\<open>calcMeshLayerStyle(key, layerStyle, feature)\<close>: the spread
  \<^verbatim>\<open>{ ...baseStyle, ...computedStyle }\<close> lets the keys of the computed style replace
  those of the base style; spreading an undefined style adds nothing.
\<close>

definition computedStyle :: "'g layerStyle \<Rightarrow> 'g option \<Rightarrow> style" where
  "computedStyle layerStyle ft =
     (case layerStyle of
        StyleFunction f \<Rightarrow> f ft
      | StyleObject s \<Rightarrow> s
      | NoStyle \<Rightarrow> Map.empty)"

definition calcMeshLayerStyle :: "string \<Rightarrow> 'g layerStyle \<Rightarrow> 'g option \<Rightarrow> style" where
  "calcMeshLayerStyle k layerStyle ft =
     (let baseStyle = [''pointerEvents'' \<mapsto> ''none'']
      in baseStyle ++ computedStyle layerStyle ft)"

text \<open>
  lodash's \<^verbatim>\<open>memoize(func)\<close>, called without a resolver, caches the result under the
  first argument of the call and returns the cached result whenever that key is present.
  The constructor replaces \<^verbatim>\<open>calcMeshLayerStyle\<close> by its memoized version, whose
  documentation in the source names \<^verbatim>\<open>key\<close> as the key \<^verbatim>\<open>used to memoize results\<close>.
  The memoized call returns the result and the new cache.
\<close>

definition memoize ::
  "('k \<Rightarrow> 'b \<Rightarrow> 'c \<Rightarrow> 'r) \<Rightarrow> ('k \<rightharpoonup> 'r) \<Rightarrow> 'k \<Rightarrow> 'b \<Rightarrow> 'c \<Rightarrow> 'r \<times> ('k \<rightharpoonup> 'r)" where
  "memoize func memo k b c =
     (case memo k of
        Some r \<Rightarrow> (r, memo)
      | None \<Rightarrow> (let r = func k b c in (r, memo(k \<mapsto> r))))"

text \<open>
  The elements \<^verbatim>\<open>renderLayers\<close> returns, with the props it passes to them:
  \<^verbatim>\<open>FeatureLayer\<close> (key, data, features, keyField, pathClassName, pathGenerator,
  pathSelectedClassName, pathStyle, pathSelectedStyle, and the forwarded props) and
  \<^verbatim>\<open>Path\<close> (className, key, feature, fill, pathGenerator, style).
\<close>

datatype ('g, 'd, 'a, 'h) element =
  FeatureLayer string "string \<rightharpoonup> 'd" "'g list" 'a string pathGenerator string
    "'g layerStyle" "'g layerStyle" 'h
| Path string string "'g option" string pathGenerator style

text \<open>The \<^verbatim>\<open>style\<close> and the \<^verbatim>\<open>key\<close> prop of a rendered \<^verbatim>\<open>Path\<close>.\<close>

fun pathStyle :: "('g, 'd, 'a, 'h) element \<Rightarrow> style option" where
  "pathStyle (Path cn k ft fi pg st) = Some st"
| "pathStyle _ = None"

fun pathKey :: "('g, 'd, 'a, 'h) element \<Rightarrow> string option" where
  "pathKey (Path cn k ft fi pg st) = Some k"
| "pathKey _ = None"

text \<open>
  One iteration of the \<^verbatim>\<open>map\<close> in \<^verbatim>\<open>renderLayers\<close>; \<open>None\<close> is \<^verbatim>\<open>null\<close>. Reading
  \<^verbatim>\<open>.features\<close> of a feature layer that is not in the cache throws. The memoized style
  function updates its cache.
\<close>

definition renderLayer ::
  "('t, 'g, 'd, 'a, 'h) choropleth \<Rightarrow> (string \<rightharpoonup> style) \<Rightarrow> 'g layer
     \<Rightarrow> error + (('g, 'd, 'a, 'h) element option \<times> (string \<rightharpoonup> style))" where
  "renderLayer i memo l =
     (if \<not> visible l then Inr (None, memo)
      else
        let k = type l @ ''-'' @ name l
        in if type l = ''feature'' then
             (case feature (cache (state i)) (name l) of
                None \<Rightarrow> Inl TypeError
              | Some fs \<Rightarrow>
                  Inr (Some (FeatureLayer k (processedData (state i)) fs (keyField (props i))
                               (className l) (pathGenerator (state i)) (selectedClassName l)
                               (style l) (selectedStyle l) (forwarded (props i))),
                       memo))
           else if type l = ''mesh'' then
             (case memoize calcMeshLayerStyle memo k (style l) (mesh (cache (state i)) (name l)) of
                (st, memo') \<Rightarrow>
                  Inr (Some (Path (className l) k (mesh (cache (state i)) (name l)) ''none''
                               (pathGenerator (state i)) st),
                       memo'))
           else Inr (None, memo))"

fun renderLayersFrom ::
  "('t, 'g, 'd, 'a, 'h) choropleth \<Rightarrow> (string \<rightharpoonup> style) \<Rightarrow> 'g layer list
     \<Rightarrow> error + (('g, 'd, 'a, 'h) element option list \<times> (string \<rightharpoonup> style))" where
  "renderLayersFrom i memo [] = Inr ([], memo)"
| "renderLayersFrom i memo (l # ls) =
     (case renderLayer i memo l of
        Inl e \<Rightarrow> Inl e
      | Inr (el, memo') \<Rightarrow>
          (case renderLayersFrom i memo' ls of
             Inl e \<Rightarrow> Inl e
           | Inr (els, memo'') \<Rightarrow> Inr (el # els, memo'')))"

definition renderLayers ::
  "('t, 'g, 'd, 'a, 'h) choropleth
     \<Rightarrow> error + (('g, 'd, 'a, 'h) element option list \<times> (string \<rightharpoonup> style))" where
  "renderLayers i = renderLayersFrom i (meshStyles i) (val (layers (props i)))"

text \<open>
  The layers a component renders over its life, one after the other: each with the
  instance as it is at that rendering, the cache of the memoized style function being
  carried from one to the next. A rendering of the layers \<open>ls\<close> of an instance \<open>i\<close> is
  the part \<open>map (Pair i) ls\<close> of such a sequence.
\<close>

fun layerRenderings ::
  "(string \<rightharpoonup> style) \<Rightarrow> (('t, 'g, 'd, 'a, 'h) choropleth \<times> 'g layer) list
     \<Rightarrow> error + (('g, 'd, 'a, 'h) element option list \<times> (string \<rightharpoonup> style))" where
  "layerRenderings memo [] = Inr ([], memo)"
| "layerRenderings memo ((i, l) # cs) =
     (case renderLayer i memo l of
        Inl e \<Rightarrow> Inl e
      | Inr (el, memo') \<Rightarrow>
          (case layerRenderings memo' cs of
             Inl e \<Rightarrow> Inl e
           | Inr (els, memo'') \<Rightarrow> Inr (el # els, memo'')))"

text \<open>
  \<^verbatim>\<open>render()\<close>: an svg of the width and height of the props, holding the rendered
  layers, and the zoom controls when \<^verbatim>\<open>controls\<close> is set. The instance is returned
  with the cache of the memoized style function as rendering left it.
\<close>

record ('g, 'd, 'a, 'h) rendered =
  svgWidth :: number
  svgHeight :: number
  withControls :: bool
  svgChildren :: "('g, 'd, 'a, 'h) element option list"

definition render ::
  "('t, 'g, 'd, 'a, 'h) choropleth
     \<Rightarrow> error + (('g, 'd, 'a, 'h) rendered \<times> ('t, 'g, 'd, 'a, 'h) choropleth)" where
  "render i =
     (case renderLayers i of
        Inl e \<Rightarrow> Inl e
      | Inr (els, memo) \<Rightarrow>
          Inr (\<lparr>svgWidth = width (props i), svgHeight = height (props i),
                withControls = controls (props i), svgChildren = els\<rparr>,
               i\<lparr>meshStyles := memo\<rparr>))"

section \<open>The responsive container\<close>

text \<open>
  The function \<^verbatim>\<open>ResponsiveContainer\<close> hands to \<^verbatim>\<open>AutoSizer\<close>, applied to the measured
  width and height. A child element is represented by its props (\<open>None\<close> for a
  \<^verbatim>\<open>null\<close> or \<^verbatim>\<open>undefined\<close> child); \<^verbatim>\<open>React.cloneElement(child, { width, height })\<close>
  sets the two props. The result \<open>None\<close> is \<^verbatim>\<open>null\<close>: nothing is rendered.
\<close>

definition ResponsiveContainer ::
  "number \<Rightarrow> number \<Rightarrow> ('t, 'g, 'd, 'a, 'h) props option list
     \<Rightarrow> ('t, 'g, 'd, 'a, 'h) props option list option" where
  "ResponsiveContainer w h children =
     (if falsy w \<or> falsy h then None
      else Some (map (\<lambda>child. case child of
                         None \<Rightarrow> None
                       | Some c \<Rightarrow> Some (c\<lparr>width := w, height := h\<rparr>)) children))"

section \<open>What a rendering shows\<close>

text \<open>The non-null layer elements of a rendering, and the styles of its mesh paths.\<close>

definition drawn ::
  "error + (('g, 'd, 'a, 'h) rendered \<times> ('t, 'g, 'd, 'a, 'h) choropleth)
     \<Rightarrow> ('g, 'd, 'a, 'h) element list" where
  "drawn r = (case r of Inl e \<Rightarrow> [] | Inr (out, i) \<Rightarrow> List.map_filter id (svgChildren out))"

definition pathStyles :: "('g, 'd, 'a, 'h) element option list \<Rightarrow> style list" where
  "pathStyles els = List.map_filter pathStyle (List.map_filter id els)"

text \<open>Rendering the outcome of a sequence of transitions.\<close>

definition renderAfter ::
  "error + ('t, 'g, 'd, 'a, 'h) choropleth
     \<Rightarrow> error + (('g, 'd, 'a, 'h) rendered \<times> ('t, 'g, 'd, 'a, 'h) choropleth)" where
  "renderAfter r = (case r of Inl e \<Rightarrow> Inl e | Inr i \<Rightarrow> render i)"

text \<open>The \<^verbatim>\<open>pointerEvents\<close> of the styles of the mesh paths of a rendering.\<close>

definition meshPointerEvents ::
  "error + (('g, 'd, 'a, 'h) rendered \<times> ('t, 'g, 'd, 'a, 'h) choropleth) \<Rightarrow> string option list" where
  "meshPointerEvents r =
     (case r of
        Inl e \<Rightarrow> []
      | Inr (out, i) \<Rightarrow> map (\<lambda>st. st ''pointerEvents'') (pathStyles (svgChildren out)))"


section \<open>An example configuration\<close>

text \<open>
  A concrete instance of the helpers, for evaluating the model: geometries are numbers,
  a datum is a pair of an id and a value, the bounds of any geometry are
  \<^verbatim>\<open>[[0, 0], [960, 640]]\<close>, the scale fits the bounds into the viewport, and the
  translate centres them or keeps the given centre in the middle of the viewport.
\<close>

definition demoExtract :: "unit \<Rightarrow> nat layer list \<Rightarrow> nat geoJSON" where
  "demoExtract t ls =
     foldl (\<lambda>m l.
              if type l = ''mesh'' then m\<lparr>mesh := (mesh m)(name l \<mapsto> length (object l))\<rparr>
              else if type l = ''feature''
                then m\<lparr>feature := (feature m)(name l \<mapsto> [length (object l)])\<rparr>
              else m)
       emptyGeoJSON ls"

definition demoScale :: "number \<Rightarrow> number \<Rightarrow> extent \<Rightarrow> number" where
  "demoScale w h b =
     num_min (num_div w (num_sub (fst (snd b)) (fst (fst b))))
             (num_div h (num_sub (snd (snd b)) (snd (fst b))))"

definition demoTranslate ::
  "number \<Rightarrow> number \<Rightarrow> number \<Rightarrow> extent \<Rightarrow> point option \<Rightarrow> point" where
  "demoTranslate w h k b center =
     (let c = (case center of
                 Some c' \<Rightarrow> c'
               | None \<Rightarrow> (num_div (num_add (fst (fst b)) (fst (snd b))) (Fin 2),
                            num_div (num_add (snd (fst b)) (snd (snd b))) (Fin 2)))
      in (num_sub (num_div w (Fin 2)) (num_mul k (fst c)),
          num_sub (num_div h (Fin 2)) (num_mul k (snd c))))"

definition demoCenterPoint :: "number \<Rightarrow> number \<Rightarrow> number \<Rightarrow> point \<Rightarrow> point" where
  "demoCenterPoint w h k t =
     (num_div (num_sub (num_div w (Fin 2)) (fst t)) k,
      num_div (num_sub (num_div h (Fin 2)) (snd t)) k)"

definition demoUtils :: "(unit, nat, string \<times> nat, unit, string) utils" where
  "demoUtils =
     \<lparr>presimplify = (\<lambda>t. t),
      extractGeoJSON = demoExtract,
      concatAndComputeGeoJSONBounds = (\<lambda>c. ((Fin 0, Fin 0), (Fin 960, Fin 640))),
      calcScale = demoScale,
      calcTranslate = demoTranslate,
      calcCenterPoint = demoCenterPoint,
      quickMerge = (\<lambda>c e. \<lparr>feature = feature c ++ feature e, mesh = mesh c ++ mesh e\<rparr>),
      propResolver = (\<lambda>d a. fst d),
      toPropertyKey = (\<lambda>v. v)\<rparr>"

definition demoLayer :: "string \<Rightarrow> string \<Rightarrow> bool \<Rightarrow> nat layerStyle \<Rightarrow> nat layer" where
  "demoLayer t n v st =
     \<lparr>name = n, type = t, object = n, visible = v, style = st, selectedStyle = NoStyle,
      className = [], selectedClassName = []\<rparr>"

text \<open>Props with the defaults of the component, a 600 by 400 viewport unless said otherwise.\<close>

definition demoProps ::
  "nat layer list obj \<Rightarrow> number \<Rightarrow> number \<Rightarrow> (unit, nat, string \<times> nat, unit, unit) props" where
  "demoProps ls w h =
     \<lparr>topology = Obj 0 (), layers = ls, width = w, height = h,
      minZoom = Fin 0, maxZoom = PosInf, zoomStep = Fin (11 / 10),
      data = Obj 1 [(''1'', 10), (''2'', 90)], keyField = (), controls = False,
      forwarded = ()\<rparr>"

text \<open>
  Two layers, a viewport that zooms in steps of 2, and the same viewport at half the size.
\<close>

definition demoLayers :: "nat layer list" where
  "demoLayers =
     [demoLayer ''feature'' ''countries'' True NoStyle,
      demoLayer ''mesh'' ''borders'' True NoStyle]"

definition zoomedProps :: "(unit, nat, string \<times> nat, unit, unit) props" where
  "zoomedProps = (demoProps (Obj 2 demoLayers) (Fin 600) (Fin 400))\<lparr>zoomStep := Fin 2\<rparr>"

definition resizedProps :: "(unit, nat, string \<times> nat, unit, unit) props" where
  "resizedProps = zoomedProps\<lparr>width := Fin 300, height := Fin 200\<rparr>"

text \<open>The example with the default zoom props.\<close>

definition fitProps :: "(unit, nat, string \<times> nat, unit, unit) props" where
  "fitProps = demoProps (Obj 2 demoLayers) (Fin 600) (Fin 400)"

section \<open>Evaluating the model\<close>

text \<open>The defining equations, gathered for evaluating the model on the example.\<close>

lemmas demo_defs = demoExtract_def demoScale_def demoTranslate_def demoCenterPoint_def demoUtils_def
  demoLayer_def demoProps_def demoLayers_def zoomedProps_def resizedProps_def fitProps_def
lemmas op_defs = runMounted_def mount_def componentDidMount_def saveSvgRef_def constructor_def
  zoom_transform_def zoomEvent_def zoomIn_def zoomOut_def zoom_scaleBy_def zoomReset_def
  currentZoomTransform_def paddedExtent_def CLIP_EXTENT_PADDING_def zoomIdentity_def
  num_max_def num_min_def num_sub_def num_neq_def emptyGeoJSON_def processData_def
  receiveProps_def componentWillReceiveProps_def newGeometry_def newView_def newProcessedData_def
  setState_def has_def

section \<open>Arithmetic of numbers\<close>

lemma round_even_of_int: "round_even (of_int n) = n"
  by (simp add: round_even_def)

lemma round_even_ge: "\<lfloor>y\<rfloor> \<le> round_even y"
  by (simp add: round_even_def Let_def)

text \<open>Rounding a fraction of integers, by integer division.\<close>

lemma round_even_frac:
  assumes "0 < q"
  shows "round_even (of_int p / of_int q) =
           (if 2 * (p mod q) < q then p div q
            else if q < 2 * (p mod q) then p div q + 1
            else if even (p div q) then p div q else p div q + 1)"
proof -
  have f: "\<lfloor>(of_int p :: real) / of_int q\<rfloor> = p div q"
    by (simp add: floor_divide_of_int_eq)
  have "(of_int p :: real) = of_int (p div q) * of_int q + of_int (p mod q)"
    by (metis div_mult_mod_eq of_int_add of_int_mult)
  then have d: "(of_int p :: real) / of_int q - of_int (p div q) = of_int (p mod q) / of_int q"
    using assms by (simp add: field_simps)
  have lt: "(of_int (p mod q) :: real) / of_int q < 1 / 2 \<longleftrightarrow> 2 * (p mod q) < q"
  proof -
    have "(of_int (p mod q) :: real) / of_int q < 1 / 2
            \<longleftrightarrow> (of_int (2 * (p mod q)) :: real) < of_int q"
      using assms by (simp add: field_simps)
    then show ?thesis by (simp only: of_int_less_iff)
  qed
  have gt: "1 / 2 < (of_int (p mod q) :: real) / of_int q \<longleftrightarrow> q < 2 * (p mod q)"
  proof -
    have "1 / 2 < (of_int (p mod q) :: real) / of_int q
            \<longleftrightarrow> (of_int q :: real) < of_int (2 * (p mod q))"
      using assms by (simp add: field_simps)
    then show ?thesis by (simp only: of_int_less_iff)
  qed
  show ?thesis
    unfolding round_even_def Let_def f d lt gt by simp
qed

lemma fl_0: "fl 0 = 0"
  by (simp add: fl_def)

lemma fl_minus: "fl (- x) = - fl x"
  by (simp add: fl_def Let_def)

lemma binade:
  assumes "0 < x"
  shows "2 powi \<lfloor>log 2 x\<rfloor> \<le> x" and "x < 2 powi (\<lfloor>log 2 x\<rfloor> + 1)"
proof -
  define k where "k = \<lfloor>log 2 x\<rfloor>"
  have "2 powr (of_int k) \<le> x \<and> x < 2 powr (of_int k + 1)"
    using floor_log_eq_powr_iff [of x 2 k] assms by (simp add: k_def)
  moreover have "(2 :: real) powr (of_int k) = 2 powi k"
    by (simp add: powr_real_of_int')
  moreover have "(2 :: real) powr (of_int k + 1) = 2 powi (k + 1)"
    using powr_real_of_int' [of 2 "k + 1"] by simp
  ultimately show "2 powi \<lfloor>log 2 x\<rfloor> \<le> x" and "x < 2 powi (\<lfloor>log 2 x\<rfloor> + 1)"
    by (simp_all add: k_def)
qed

lemma binade_unique:
  assumes "0 < x" "2 powi e \<le> x" "x < 2 powi (e + 1)"
  shows "\<lfloor>log 2 x\<rfloor> = e"
proof -
  have "2 powr (of_int e) \<le> x \<and> x < 2 powr (of_int e + 1)"
    using assms powr_real_of_int' [of 2 e] powr_real_of_int' [of 2 "e + 1"] by simp
  then show ?thesis
    using floor_log_eq_powr_iff [of x 2 e] assms(1) by simp
qed

text \<open>Rounding a positive real whose binade is known.\<close>

lemma fl_at:
  assumes "0 < x" "2 powi e \<le> x" "x < 2 powi (e + 1)"
  shows "fl x = of_int (round_even (x / 2 powi (e - 52))) * 2 powi (e - 52)"
  using binade_unique [OF assms] assms(1) by (simp add: fl_def Let_def)

lemma fl_pos:
  assumes "0 < x"
  shows "0 < fl x"
proof -
  define e where "e = \<lfloor>log 2 x\<rfloor>"
  have b: "2 powi e \<le> x" using binade(1) [OF assms] by (simp add: e_def)
  have "x / 2 powi (e - 52) \<ge> 2 powi e / 2 powi (e - 52)"
    using b by (simp add: divide_right_mono)
  moreover have "2 powi e / 2 powi (e - 52) = (2 :: real) ^ 52"
    by (simp add: power_int_diff)
  ultimately have "(2 :: real) ^ 52 \<le> x / 2 powi (e - 52)" by (simp only:)
  moreover have "(1 :: real) \<le> 2 ^ 52" by simp
  ultimately have "(1 :: real) \<le> x / 2 powi (e - 52)" by (rule order_trans [rotated])
  then have "1 \<le> \<lfloor>x / 2 powi (e - 52)\<rfloor>" by (simp only: le_floor_iff of_int_1)
  with round_even_ge [of "x / 2 powi (e - 52)"] have "0 < round_even (x / 2 powi (e - 52))"
    by linarith
  then show ?thesis using assms by (simp add: fl_def Let_def e_def [symmetric])
qed

text \<open>Rounding does not turn a non-zero value into zero (the exponent is unbounded).\<close>

lemma fl_eq_0_iff: "fl x = 0 \<longleftrightarrow> x = 0"
proof (cases "0 < x")
  case True
  with fl_pos [of x] show ?thesis by simp
next
  case False
  show ?thesis
  proof (cases "x = 0")
    case True
    then show ?thesis by (simp add: fl_0)
  next
    case nz: False
    with False have "0 < - x" by simp
    from fl_pos [OF this] nz show ?thesis by (simp add: fl_minus)
  qed
qed

text \<open>A value with a significand of at most 53 bits is a double: rounding keeps it.\<close>

lemma fl_exact_pos:
  assumes m: "0 < m" "m < 2 ^ 53"
  shows "fl (of_int m * 2 powi e) = of_int m * 2 powi e"
proof -
  define x :: real where "x = of_int m * 2 powi e"
  have x: "0 < x" using m by (simp add: x_def)
  define E where "E = \<lfloor>log 2 x\<rfloor>"
  have b: "2 powi E \<le> x" using binade(1) [OF x] by (simp add: E_def)
  have "E - 52 \<le> e"
  proof (rule ccontr)
    assume "\<not> E - 52 \<le> e"
    then have "e + 53 \<le> E" by simp
    then have "(2 :: real) powi (e + 53) \<le> 2 powi E"
      by (intro power_int_increasing) simp_all
    moreover have "x < 2 ^ 53 * 2 powi e"
    proof -
      from m(2) have "real_of_int m < 2 ^ 53"
        by (metis of_int_less_iff of_int_numeral of_int_power)
      then show ?thesis by (simp add: x_def)
    qed
    moreover have "(2 :: real) powi (e + 53) = 2 ^ 53 * 2 powi e"
      by (simp add: power_int_add)
    ultimately show False using b by simp
  qed
  then obtain k where k: "e = E - 52 + int k"
    by (metis add.commute diff_add_cancel zle_iff_zadd)
  have "x / 2 powi (E - 52) = of_int (m * 2 ^ k)"
    by (simp add: x_def k power_int_add)
  then have "round_even (x / 2 powi (E - 52)) = m * 2 ^ k"
    by (simp only: round_even_of_int)
  then have "fl x = of_int (m * 2 ^ k) * 2 powi (E - 52)"
    using x by (simp add: fl_def Let_def E_def [symmetric])
  also have "\<dots> = x" by (simp add: x_def k power_int_add)
  finally show ?thesis by (simp add: x_def)
qed

text \<open>The doubles that the example computes with.\<close>

lemma fl_numeral:
  "(numeral w :: int) < 9007199254740992 \<Longrightarrow> fl (numeral w) = numeral w"
  using fl_exact_pos [of "numeral w" 0] by simp

lemma fl_1: "fl 1 = 1"
  using fl_exact_pos [of 1 0] by simp

lemma fl_numeral_div:
  assumes "(numeral w :: int) < 9007199254740992"
  shows "fl (numeral w / 2) = numeral w / 2" and "fl (numeral w / 4) = numeral w / 4"
    and "fl (numeral w / 8) = numeral w / 8" and "fl (numeral w / 16) = numeral w / 16"
  using fl_exact_pos [of "numeral w" "- 1"] fl_exact_pos [of "numeral w" "- 2"]
    fl_exact_pos [of "numeral w" "- 3"] fl_exact_pos [of "numeral w" "- 4"] assms
  by (simp_all add: power_int_minus field_simps)

lemma fl_one_div:
  "fl (1 / 2) = 1 / 2" "fl (1 / 4) = 1 / 4" "fl (1 / 8) = 1 / 8" "fl (1 / 16) = 1 / 16"
  using fl_exact_pos [of 1 "- 1"] fl_exact_pos [of 1 "- 2"]
    fl_exact_pos [of 1 "- 3"] fl_exact_pos [of 1 "- 4"]
  by (simp_all add: power_int_minus field_simps)

lemmas fl_simps = fl_0 fl_1 fl_minus fl_numeral fl_numeral_div fl_one_div

section \<open>The path generator: level of detail and transform\<close>

text \<open>
  Claim C8, amended. The point transform of \<open>createPathGenerator k t ce\<close> emits a point
  \<open>(x, y)\<close> of weight \<open>z\<close> exactly when \<open>z\<close> is at least \<^verbatim>\<open>1 / scale / scale\<close> as the
  source computes it, two divisions in double arithmetic, each rounded; the emitted
  coordinates are \<^verbatim>\<open>x * scale + translate[0]\<close> and \<^verbatim>\<open>y * scale + translate[1]\<close>,
  computed in double arithmetic as well.
\<close>

theorem point_emitted_iff:
  "stream_point (createPathGenerator k t ce) (x, y, z) =
     (if num_ge z (num_div (num_div (Fin 1) k) k)
      then Some (num_add (num_mul x k) (fst t), num_add (num_mul y k) (snd t))
      else None)"
  by (simp add: createPathGenerator_def point_def)

theorem point_emitted_iff_witness:
  "stream_point (createPathGenerator (Fin 2) (Fin 10, Fin 20) (paddedExtent (Fin 600) (Fin 400)))
     (Fin 1, Fin 1, Fin (1 / 4)) = Some (Fin 12, Fin 22)
   \<and> stream_point (createPathGenerator (Fin 2) (Fin 10, Fin 20) (paddedExtent (Fin 600) (Fin 400)))
     (Fin 1, Fin 1, Fin (1 / 5)) = None"
  using point_emitted_iff [of "Fin 2" "(Fin 10, Fin 20)" "paddedExtent (Fin 600) (Fin 400)"
      "Fin 1" "Fin 1" "Fin (1 / 4)"]
    point_emitted_iff [of "Fin 2" "(Fin 10, Fin 20)" "paddedExtent (Fin 600) (Fin 400)"
      "Fin 1" "Fin 1" "Fin (1 / 5)"]
  by (simp add: fl_simps)

text \<open>The doubles \<^verbatim>\<open>1 / 31\<close>, \<^verbatim>\<open>1 / 31 / 31\<close> and \<^verbatim>\<open>1 / (31 * 31)\<close>.\<close>

lemma fl_inverse_31: "fl (1 / 31) = 1162219258676257 / 36028797018963968"
proof -
  have "(1 / 31 :: real) / 2 powi (- 5 - 52) = of_int (2 ^ 57) / of_int 31"
    by (simp add: power_int_minus)
  moreover have "round_even (of_int (2 ^ 57) / of_int 31) = 4648877034705028"
    using round_even_frac [of 31 "2 ^ 57"] by simp
  ultimately show ?thesis
    using fl_at [of "1 / 31" "- 5"] by (simp add: power_int_minus)
qed

lemma fl_inverse_31_31:
  "fl (1162219258676257 / 1116892707587883008) = 4798840810018093 / 4611686018427387904"
proof -
  have "(1162219258676257 / 1116892707587883008 :: real) / 2 powi (- 10 - 52)
          = of_int (4648877034705028 * 2 ^ 5) / of_int 31"
    by (simp add: power_int_minus)
  moreover have "round_even (of_int (4648877034705028 * 2 ^ 5) / of_int 31) = 4798840810018093"
    using round_even_frac [of 31 "4648877034705028 * 2 ^ 5"] by simp
  ultimately show ?thesis
    using fl_at [of "1162219258676257 / 1116892707587883008" "- 10"]
    by (simp add: power_int_minus)
qed

lemma fl_inverse_961: "fl (1 / 961) = 2399420405009047 / 2305843009213693952"
proof -
  have "(1 / 961 :: real) / 2 powi (- 10 - 52) = of_int (2 ^ 62) / of_int 961"
    by (simp add: power_int_minus)
  moreover have "round_even (of_int (2 ^ 62) / of_int 961) = 4798840810018094"
    using round_even_frac [of 961 "2 ^ 62"] by simp
  ultimately show ?thesis
    using fl_at [of "1 / 961" "- 10"] by (simp add: power_int_minus)
qed

text \<open>
  Claim C8 as stated fails. At the scale 31 the source's threshold \<^verbatim>\<open>1 / 31 / 31\<close> is
  the double \<open>4798840810018093 / 2 ^ 62\<close>, one unit in the last place below the double
  \<^verbatim>\<open>1 / (31 * 31)\<close> and below the real \<open>1 / 961\<close>. A point of that weight is emitted
  although its weight is less than \<open>1 / (scale * scale)\<close>, in double arithmetic and in
  exact arithmetic alike.
\<close>

theorem point_threshold_counterexample:
  "stream_point (createPathGenerator (Fin 31) (Fin 0, Fin 0) (paddedExtent (Fin 600) (Fin 400)))
     (Fin 0, Fin 0, Fin (4798840810018093 / 2 ^ 62)) = Some (Fin 0, Fin 0)
   \<and> \<not> num_ge (Fin (4798840810018093 / 2 ^ 62)) (num_div (Fin 1) (num_mul (Fin 31) (Fin 31)))
   \<and> \<not> (1 / (31 * 31) \<le> (4798840810018093 / 2 ^ 62 :: real))"
  by (simp add: createPathGenerator_def point_def fl_simps fl_inverse_31 fl_inverse_31_31
      fl_inverse_961)

section \<open>Processed data: the last datum of a key wins\<close>

lemma keyBy_snoc: "keyBy toKey (xs @ [x]) f = (keyBy toKey xs f)(toKey (f x) \<mapsto> x)"
  by (simp add: keyBy_def)

lemma keyBy_last:
  "keyBy toKey xs f key =
     (case filter (\<lambda>d. toKey (f d) = key) xs of [] \<Rightarrow> None | d # ds \<Rightarrow> Some (last (d # ds)))"
proof (induction xs rule: rev_induct)
  case Nil
  then show ?case by (simp add: keyBy_def)
next
  case (snoc x xs)
  then show ?case by (auto simp: keyBy_snoc split: list.splits)
qed

text \<open>
  Claim C10. \<open>processData\<close> maps a key to a datum exactly when some datum of the array
  resolves to that key, and then to the last such datum in array order: every datum is
  stored under its resolved key, and a later datum with the same key replaces an earlier
  one.
\<close>

theorem processData_last_wins:
  "processData resolve toKey ds kf key =
     (case filter (\<lambda>d. toKey (resolve d kf) = key) ds of
        [] \<Rightarrow> None
      | d # rest \<Rightarrow> Some (last (d # rest)))"
  by (simp add: processData_def keyBy_last)

theorem processData_last_wins_witness:
  "processData (\<lambda>d a. fst d) (\<lambda>v. v) [(''1'', 10 :: nat), (''2'', 90), (''1'', 30)] () ''1''
     = Some (''1'', 30)"
  using processData_last_wins [of "\<lambda>d a. fst d" "\<lambda>v. v"
      "[(''1'', 10 :: nat), (''2'', 90), (''1'', 30)]" "()" "''1''"]
  by simp

section \<open>The zoom event\<close>

lemma zoomEvent_frame:
  "props (zoomEvent i) = props i" "clipExtent (zoomEvent i) = clipExtent i"
  "zoom (zoomEvent i) = zoom i" "svgNode (zoomEvent i) = svgNode i"
  "meshStyles (zoomEvent i) = meshStyles i"
  by (simp_all add: zoomEvent_def Let_def)

lemma zoomEvent_state:
  "state (zoomEvent i) =
     (state i)\<lparr>scale := tk (currentZoomTransform i),
               translate := (tx (currentZoomTransform i), ty (currentZoomTransform i)),
               pathGenerator := createPathGenerator (tk (currentZoomTransform i))
                 (tx (currentZoomTransform i), ty (currentZoomTransform i)) (clipExtent i)\<rparr>"
  by (simp add: zoomEvent_def Let_def)

text \<open>
  Claim C7. \<open>zoomEvent\<close> replaces the scale, the translate and the path generator of the
  state by those of the current zoom transform, and nothing else: the geometry cache, the
  bounds, \<open>scaleBase\<close> and the processed data are those of the state before.
\<close>

theorem zoomEvent_updates_view_only:
  "state (zoomEvent i) =
     (state i)\<lparr>scale := tk (currentZoomTransform i),
               translate := (tx (currentZoomTransform i), ty (currentZoomTransform i)),
               pathGenerator := createPathGenerator (tk (currentZoomTransform i))
                 (tx (currentZoomTransform i), ty (currentZoomTransform i)) (clipExtent i)\<rparr>
   \<and> cache (state (zoomEvent i)) = cache (state i)
   \<and> bounds (state (zoomEvent i)) = bounds (state i)
   \<and> scaleBase (state (zoomEvent i)) = scaleBase (state i)
   \<and> processedData (state (zoomEvent i)) = processedData (state i)"
  by (simp add: zoomEvent_state)

section \<open>The zoom behaviour is configured once\<close>

lemma zoom_transform_zoom: "zoom_transform i t = Inr i' \<Longrightarrow> zoom i' = zoom i"
  by (auto simp: zoom_transform_def zoomEvent_frame split: option.splits)

lemma zoom_scaleBy_zoom: "zoom_scaleBy i f = Inr i' \<Longrightarrow> zoom i' = zoom i"
  by (auto simp: zoom_scaleBy_def Let_def zoomEvent_frame split: option.splits)

lemma componentWillReceiveProps_zoom:
  "componentWillReceiveProps U i np = Inr i' \<Longrightarrow> zoom i' = zoom i"
  by (auto simp: componentWillReceiveProps_def Let_def split: prod.splits option.splits sum.splits
           dest!: zoom_transform_zoom)

lemma receiveProps_zoom: "receiveProps U i np = Inr i' \<Longrightarrow> zoom i' = zoom i"
  by (auto simp: receiveProps_def split: sum.splits dest!: componentWillReceiveProps_zoom)

lemma step_zoom: "step U i e = Inr i' \<Longrightarrow> zoom i' = zoom i"
  by (cases e) (auto simp: zoomIn_def zoomOut_def zoomReset_def split: prod.splits
      dest: receiveProps_zoom zoom_scaleBy_zoom zoom_transform_zoom)

lemma run_zoom: "run U i es = Inr i' \<Longrightarrow> zoom i' = zoom i"
proof (induction es arbitrary: i)
  case Nil
  then show ?case by simp
next
  case (Cons e es)
  then show ?case by (auto split: sum.splits dest: step_zoom)
qed

lemma mount_zoom: "mount U p = Inr i0 \<Longrightarrow> zoom i0 = zoom (constructor U p)"
  by (auto simp: mount_def componentDidMount_def saveSvgRef_def split: prod.splits dest!: zoom_transform_zoom)

section \<open>The mounted component does not fail\<close>

lemma zoom_transform_mounted:
  "svgNode i \<noteq> None \<Longrightarrow> \<exists>i'. zoom_transform i t = Inr i' \<and> svgNode i' = Some t"
  by (auto simp: zoom_transform_def zoomEvent_frame)

lemma zoom_transform_Inr:
  "zoom_transform i t = Inr i' \<Longrightarrow> i' = zoomEvent (i\<lparr>svgNode := Some t\<rparr>)"
  by (auto simp: zoom_transform_def split: option.splits)

lemma zoom_scaleBy_mounted:
  "svgNode i \<noteq> None \<Longrightarrow> \<exists>i'. zoom_scaleBy i f = Inr i' \<and> svgNode i' \<noteq> None"
  by (auto simp: zoom_scaleBy_def Let_def zoomEvent_frame)

lemma componentWillReceiveProps_mounted:
  assumes "svgNode i \<noteq> None"
  shows "\<exists>i'. componentWillReceiveProps U i np = Inr i' \<and> svgNode i' \<noteq> None"
proof -
  obtain ex nc nb where g: "newGeometry U i np = (ex, nc, nb)"
    by (cases "newGeometry U i np") auto
  show ?thesis
  proof (cases "newView U i np nb")
    case None
    with g assms show ?thesis by (simp add: componentWillReceiveProps_def)
  next
    case (Some v)
    obtain ce sb sc tr pg where v: "v = (ce, sb, sc, tr, pg)" by (cases v) auto
    from assms obtain i' where
      "zoom_transform (i\<lparr>clipExtent := ce\<rparr>) (Transform sc (fst tr) (snd tr)) = Inr i'"
      "svgNode i' = Some (Transform sc (fst tr) (snd tr))"
      using zoom_transform_mounted [of "i\<lparr>clipExtent := ce\<rparr>" "Transform sc (fst tr) (snd tr)"]
      by auto
    with g Some v show ?thesis by (simp add: componentWillReceiveProps_def)
  qed
qed

lemma step_mounted:
  assumes "svgNode i \<noteq> None"
  shows "\<exists>i'. step U i e = Inr i' \<and> svgNode i' \<noteq> None"
proof (cases e)
  case (PropsUpdate np)
  from componentWillReceiveProps_mounted [OF assms, of U np] show ?thesis
    by (auto simp: PropsUpdate receiveProps_def)
next
  case ZoomIn
  with zoom_scaleBy_mounted [OF assms] show ?thesis by (simp add: zoomIn_def)
next
  case ZoomOut
  with zoom_scaleBy_mounted [OF assms] show ?thesis by (simp add: zoomOut_def)
next
  case ZoomReset
  obtain x y where t: "calcTranslate U (width (props i)) (height (props i))
             (scaleBase (state i)) (bounds (state i)) None = (x, y)"
    by (cases "calcTranslate U (width (props i)) (height (props i))
             (scaleBase (state i)) (bounds (state i)) None") auto
  from zoom_transform_mounted [OF assms, of "Transform (scaleBase (state i)) x y"] t ZoomReset
  show ?thesis by (auto simp: zoomReset_def)
qed

lemma run_mounted:
  "svgNode i \<noteq> None \<Longrightarrow> \<exists>i'. run U i es = Inr i' \<and> svgNode i' \<noteq> None"
proof (induction es arbitrary: i)
  case Nil
  then show ?case by simp
next
  case (Cons e es)
  from step_mounted [OF Cons.prems, of U e] obtain i1 where
    s: "step U i e = Inr i1" "svgNode i1 \<noteq> None" by auto
  from Cons.IH [OF s(2)] s(1) show ?case by simp
qed

lemma mount_mounted: "\<exists>i. mount U p = Inr i \<and> svgNode i \<noteq> None"
proof -
  obtain x y where t: "translate (state (constructor U p)) = (x, y)"
    by (cases "translate (state (constructor U p))") auto
  have "svgNode (saveSvgRef (constructor U p) (Some zoomIdentity)) \<noteq> None"
    by (simp add: saveSvgRef_def)
  from zoom_transform_mounted [OF this, of "Transform (scale (state (constructor U p))) x y"] t
  show ?thesis by (auto simp: mount_def componentDidMount_def saveSvgRef_def)
qed

lemma runMounted_mounted: "\<exists>i. runMounted U p es = Inr i \<and> svgNode i \<noteq> None"
proof -
  from mount_mounted obtain i0 where "mount U p = Inr i0" "svgNode i0 \<noteq> None" by blast
  with run_mounted [of i0 U es] show ?thesis by (auto simp: runMounted_def)
qed

lemma runMounted_svgNode: "runMounted U p es = Inr i \<Longrightarrow> svgNode i \<noteq> None"
  using runMounted_mounted [of U p es] by auto

lemma runMounted_zoom:
  "runMounted U p es = Inr i \<Longrightarrow> zoom i = zoom (constructor U p)"
proof -
  assume r: "runMounted U p es = Inr i"
  then obtain i0 where m: "mount U p = Inr i0" and "run U i0 es = Inr i"
    by (auto simp: runMounted_def split: sum.splits)
  then have "zoom i = zoom i0" by (simp add: run_zoom)
  with m show ?thesis by (simp add: mount_zoom)
qed

text \<open>
  Claim C1. The constructor sets the scale extent of the zoom behaviour to
  \<open>[max(scaleBase, minZoom), max(scaleBase, maxZoom)]\<close>, where \<open>scaleBase\<close> is the scale
  fitted to the first bounds. No later transition sets it again: a call of
  \<open>componentWillReceiveProps\<close> returns an instance with the same extent, and so does
  every sequence of prop updates and zoom operations on the mounted component.
\<close>

theorem scaleExtent_fixed_at_construction:
  "scaleExtent (zoom (constructor U p)) =
     (num_max (scaleBase (state (constructor U p))) (minZoom p),
      num_max (scaleBase (state (constructor U p))) (maxZoom p))
   \<and> scaleBase (state (constructor U p)) =
       calcScale U (width p) (height p) (bounds (state (constructor U p)))
   \<and> bounds (state (constructor U p)) =
       concatAndComputeGeoJSONBounds U
         (extractGeoJSON U (presimplify U (val (topology p))) (val (layers p)))
   \<and> (componentWillReceiveProps U i nextProps = Inr i'
        \<longrightarrow> scaleExtent (zoom i') = scaleExtent (zoom i))
   \<and> (runMounted U p es = Inr i''
        \<longrightarrow> scaleExtent (zoom i'') = scaleExtent (zoom (constructor U p)))"
proof -
  have "scaleExtent (zoom (constructor U p)) =
     (num_max (scaleBase (state (constructor U p))) (minZoom p),
      num_max (scaleBase (state (constructor U p))) (maxZoom p))"
    by (simp add: constructor_def Let_def)
  moreover have "scaleBase (state (constructor U p)) =
       calcScale U (width p) (height p) (bounds (state (constructor U p)))"
    by (simp add: constructor_def Let_def)
  moreover have "bounds (state (constructor U p)) =
       concatAndComputeGeoJSONBounds U
         (extractGeoJSON U (presimplify U (val (topology p))) (val (layers p)))"
    by (simp add: constructor_def Let_def)
  ultimately show ?thesis
    by (auto dest: componentWillReceiveProps_zoom runMounted_zoom)
qed

theorem scaleExtent_fixed_at_construction_witness:
  "scaleExtent (zoom (constructor demoUtils zoomedProps)) = (Fin (5 / 8), PosInf)
   \<and> (\<exists>i i'. runMounted demoUtils zoomedProps [ZoomIn] = Inr i
         \<and> componentWillReceiveProps demoUtils i resizedProps = Inr i'
         \<and> scaleExtent (zoom i') = (Fin (5 / 8), PosInf))
   \<and> (\<exists>i. runMounted demoUtils zoomedProps [ZoomIn, PropsUpdate resizedProps, ZoomOut, ZoomReset]
               = Inr i
         \<and> scaleExtent (zoom i) = (Fin (5 / 8), PosInf))"
proof -
  have c: "scaleExtent (zoom (constructor demoUtils zoomedProps)) = (Fin (5 / 8), PosInf)"
    by (simp add: demo_defs op_defs fl_simps Let_def)
  obtain i where i: "runMounted demoUtils zoomedProps [ZoomIn] = Inr i" "svgNode i \<noteq> None"
    using runMounted_mounted by blast
  obtain i' where i': "componentWillReceiveProps demoUtils i resizedProps = Inr i'"
    using componentWillReceiveProps_mounted [OF i(2)] by blast
  obtain j where j: "runMounted demoUtils zoomedProps
      [ZoomIn, PropsUpdate resizedProps, ZoomOut, ZoomReset] = Inr j"
    using runMounted_mounted by blast
  from scaleExtent_fixed_at_construction [of demoUtils zoomedProps i resizedProps i'
      "[ZoomIn]" i] i i'
  have "scaleExtent (zoom i') = scaleExtent (zoom (constructor demoUtils zoomedProps))"
    by simp
  moreover from scaleExtent_fixed_at_construction [of demoUtils zoomedProps i resizedProps i'
      "[ZoomIn, PropsUpdate resizedProps, ZoomOut, ZoomReset]" j] j
  have "scaleExtent (zoom j) = scaleExtent (zoom (constructor demoUtils zoomedProps))"
    by simp
  ultimately show ?thesis using c i i' j by auto
qed

section \<open>Resizing keeps the relative zoom\<close>

lemma newView_Some:
  assumes "num_neq (width np) (width (props i)) \<or> num_neq (height np) (height (props i))
             \<or> nb \<noteq> None"
  shows "\<exists>ce tr pg. newView U i np nb =
           Some (ce,
                 calcScale U (width np) (height np)
                   (case nb of Some b' \<Rightarrow> b' | None \<Rightarrow> bounds (state i)),
                 num_mul (calcScale U (width np) (height np)
                            (case nb of Some b' \<Rightarrow> b' | None \<Rightarrow> bounds (state i)))
                   (num_div (scale (state i)) (scaleBase (state i))),
                 tr, pg)"
proof -
  from assms have c: "(num_neq (width np) (width (props i))
      \<or> num_neq (height np) (height (props i)) \<or> nb \<noteq> None) = True"
    by simp
  show ?thesis unfolding newView_def Let_def c if_True by (intro exI) (rule refl)
qed

lemma componentWillReceiveProps_resize:
  assumes r: "componentWillReceiveProps U i np = Inr i'"
      and sz: "num_neq (width np) (width (props i)) \<or> num_neq (height np) (height (props i))"
  shows "scaleBase (state i') = calcScale U (width np) (height np) (bounds (state i'))"
    and "scale (state i') =
           num_mul (scaleBase (state i')) (num_div (scale (state i)) (scaleBase (state i)))"
proof -
  obtain ex nc nb where g: "newGeometry U i np = (ex, nc, nb)"
    by (cases "newGeometry U i np") auto
  define b where "b = (case nb of Some b' \<Rightarrow> b' | None \<Rightarrow> bounds (state i))"
  define sb where "sb = calcScale U (width np) (height np) b"
  define sc where "sc = num_mul sb (num_div (scale (state i)) (scaleBase (state i)))"
  from sz newView_Some [of np i nb U]
  have "\<exists>ce tr pg. newView U i np nb = Some (ce, sb, sc, tr, pg)"
    unfolding b_def sb_def sc_def by blast
  then obtain ce tr pg where v: "newView U i np nb = Some (ce, sb, sc, tr, pg)"
    by blast
  define j where "j = zoomEvent (i\<lparr>clipExtent := ce, svgNode := Some (Transform sc (fst tr) (snd tr))\<rparr>)"
  from r g v have
    i': "i' = j\<lparr>state := setState (state j) nc nb (Some (sb, sc, tr, pg))
                  (newProcessedData U i np)\<rparr>"
    by (auto simp: componentWillReceiveProps_def Let_def j_def split: sum.splits
        dest!: zoom_transform_Inr)
  have sB: "scaleBase (state i') = sb" and sC: "scale (state i') = sc"
    by (simp_all add: i' setState_def Let_def split: option.splits)
  have "bounds (state i') = (case nb of Some b' \<Rightarrow> b' | None \<Rightarrow> bounds (state j))"
    by (simp add: i' setState_def Let_def split: option.splits)
  moreover have "bounds (state j) = bounds (state i)"
    by (simp add: j_def zoomEvent_state)
  ultimately have "bounds (state i') = b" by (simp add: b_def split: option.splits)
  with sB show "scaleBase (state i') = calcScale U (width np) (height np) (bounds (state i'))"
    by (simp add: sb_def)
  from sB sC show "scale (state i') =
           num_mul (scaleBase (state i')) (num_div (scale (state i)) (scaleBase (state i)))"
    by (simp add: sc_def)
qed


text \<open>
  Claim C2. In every state the mounted component can reach, a prop update that changes
  the width or the height returns, its new \<open>scaleBase\<close> is the scale fitted to the new
  size, and its new scale is the new \<open>scaleBase\<close> times the old ratio
  \<open>scale / scaleBase\<close>, as the source computes it in double arithmetic.
\<close>

theorem resize_preserves_relative_zoom:
  assumes m: "runMounted U p es = Inr i"
      and sz: "num_neq (width nextProps) (width (props i))
                 \<or> num_neq (height nextProps) (height (props i))"
  shows "\<exists>i'. componentWillReceiveProps U i nextProps = Inr i'
          \<and> scaleBase (state i') =
              calcScale U (width nextProps) (height nextProps) (bounds (state i'))
          \<and> scale (state i') =
              num_mul (scaleBase (state i')) (num_div (scale (state i)) (scaleBase (state i)))"
proof -
  from m have "svgNode i \<noteq> None" by (rule runMounted_svgNode)
  then obtain i' where r: "componentWillReceiveProps U i nextProps = Inr i'"
    using componentWillReceiveProps_mounted by blast
  from componentWillReceiveProps_resize [OF r sz] r show ?thesis by blast
qed

theorem resize_preserves_relative_zoom_witness:
  "\<exists>i i'. runMounted demoUtils zoomedProps [ZoomIn] = Inr i
     \<and> scaleBase (state i) = Fin (5 / 8)
     \<and> scale (state i) = Fin (5 / 4)
     \<and> componentWillReceiveProps demoUtils i resizedProps = Inr i'
     \<and> scaleBase (state i') = Fin (5 / 16)
     \<and> scale (state i') = Fin (5 / 8)"
proof -
  have "\<exists>i i'. runMounted demoUtils zoomedProps [ZoomIn] = Inr i
     \<and> componentWillReceiveProps demoUtils i resizedProps = Inr i'
     \<and> width (props i) = Fin 600
     \<and> scaleBase (state i) = Fin (5 / 8)
     \<and> scale (state i) = Fin (5 / 4)
     \<and> bounds (state i') = ((Fin 0, Fin 0), (Fin 960, Fin 640))"
    by (simp add: demo_defs op_defs fl_simps Let_def)
  then obtain i i' where e: "runMounted demoUtils zoomedProps [ZoomIn] = Inr i"
     "componentWillReceiveProps demoUtils i resizedProps = Inr i'"
     "width (props i) = Fin 600" "scaleBase (state i) = Fin (5 / 8)"
     "scale (state i) = Fin (5 / 4)"
     "bounds (state i') = ((Fin 0, Fin 0), (Fin 960, Fin 640))"
    by blast
  have "num_neq (width resizedProps) (width (props i))
          \<or> num_neq (height resizedProps) (height (props i))"
    by (simp add: e(3) resizedProps_def num_neq_def)
  from resize_preserves_relative_zoom [OF e(1) this] e(2)
  have sb: "scaleBase (state i') =
          calcScale demoUtils (width resizedProps) (height resizedProps) (bounds (state i'))"
    and sc: "scale (state i') =
          num_mul (scaleBase (state i')) (num_div (scale (state i)) (scaleBase (state i)))"
    by auto
  from sb e(6) have sb': "scaleBase (state i') = Fin (5 / 16)"
    by (simp add: demo_defs op_defs fl_simps)
  from sc sb' e(4,5) have "scale (state i') = Fin (5 / 8)"
    by (simp add: fl_simps)
  with sb' e show ?thesis by simp
qed

section \<open>Zoom buttons and the scale extent\<close>











lemma num_div_one_step:
  "z \<noteq> 0 \<Longrightarrow> num_div (Fin 1) (Fin z) = Fin (fl (1 / z)) \<and> fl (1 / z) \<noteq> 0"
  by (simp add: fl_eq_0_iff)








section \<open>Toggling the visibility of a layer\<close>

















section \<open>The memoized style of mesh layers\<close>

lemma renderLayersFrom_layerRenderings:
  "renderLayersFrom i memo ls = layerRenderings memo (map (Pair i) ls)"
  by (induction ls arbitrary: memo) (simp_all split: sum.splits prod.splits)

lemma memoize_fst:
  "fst (memoize func memo k b c) = (case memo k of Some r \<Rightarrow> r | None \<Rightarrow> func k b c)"
  by (simp add: memoize_def Let_def split: option.splits)

lemma memoize_snd:
  "snd (memoize func memo k b c) =
     (case memo k of Some r \<Rightarrow> memo | None \<Rightarrow> memo(k \<mapsto> func k b c))"
  by (simp add: memoize_def Let_def split: option.splits)

lemma memoize_keeps:
  "memo k' = Some r \<Longrightarrow> snd (memoize func memo k b c) k' = Some r"
  by (auto simp: memoize_snd split: option.splits)

lemma renderLayer_mesh:
  assumes "type l = ''mesh''" "visible l"
  shows "renderLayer i memo l =
           Inr (Some (Path (className l) (''mesh-'' @ name l) (mesh (cache (state i)) (name l))
                        ''none'' (pathGenerator (state i))
                        (fst (memoize calcMeshLayerStyle memo (''mesh-'' @ name l) (style l)
                                (mesh (cache (state i)) (name l))))),
                snd (memoize calcMeshLayerStyle memo (''mesh-'' @ name l) (style l)
                       (mesh (cache (state i)) (name l))))"
  using assms by (simp add: renderLayer_def Let_def split: prod.splits)

lemma renderLayer_not_mesh:
  assumes "\<not> (type l = ''mesh'' \<and> visible l)" "renderLayer i memo l = Inr (el, memo')"
  shows "memo' = memo \<and> (\<forall>p. el = Some p \<longrightarrow> pathKey p = None)"
  using assms by (auto simp: renderLayer_def Let_def split: if_splits option.splits)

lemma renderLayer_keeps:
  assumes "renderLayer i memo l = Inr (el, memo')" "memo k = Some st"
  shows "memo' k = Some st"
proof (cases "type l = ''mesh'' \<and> visible l")
  case True
  with assms show ?thesis by (auto simp: renderLayer_mesh memoize_keeps)
next
  case False
  with renderLayer_not_mesh [OF False assms(1)] assms(2) show ?thesis by simp
qed

lemma layerRenderings_keeps:
  assumes "layerRenderings memo cs = Inr (els, memo')" "memo k = Some st"
  shows "memo' k = Some st"
  using assms
proof (induction cs arbitrary: memo els)
  case Nil
  then show ?case by simp
next
  case (Cons c cs)
  obtain i l where c: "c = (i, l)" by (cases c)
  from Cons.prems(1) c obtain el m1 els1 where
    h: "renderLayer i memo l = Inr (el, m1)" "layerRenderings m1 cs = Inr (els1, memo')"
    by (auto split: sum.splits prod.splits)
  from renderLayer_keeps [OF h(1) Cons.prems(2)] have "m1 k = Some st" .
  from Cons.IH [OF h(2) this] show ?case .
qed

text \<open>
  Claim C5, amended. The style of a mesh layer is memoized under the layer key alone. When
  a mesh layer is rendered with a key that is not yet in the cache, its path gets the
  style computed from the layer's own style and feature. Whatever layers the component
  renders afterwards, in whatever state, a mesh layer with that key is rendered with that
  first style again, whatever its own style and feature, and the cache keeps the first
  style under the key.
\<close>

theorem mesh_style_memoized_by_key:
  assumes l1: "type l1 = ''mesh''" "visible l1"
      and l2: "type l2 = ''mesh''" "visible l2" "name l2 = name l1"
      and fresh: "memo (''mesh-'' @ name l1) = None"
      and r1: "renderLayer i1 memo l1 = Inr (el1, memo1)"
      and later: "layerRenderings memo1 cs = Inr (els, memo2)"
      and r2: "renderLayer i2 memo2 l2 = Inr (el2, memo3)"
  shows "\<exists>p1 p2. el1 = Some p1 \<and> el2 = Some p2
           \<and> pathStyle p1 = Some (calcMeshLayerStyle (''mesh-'' @ name l1) (style l1)
                                    (mesh (cache (state i1)) (name l1)))
           \<and> pathStyle p2 = pathStyle p1
           \<and> memo3 (''mesh-'' @ name l1) = pathStyle p1"
proof -
  define k where "k = ''mesh-'' @ name l1"
  define st where "st = calcMeshLayerStyle k (style l1) (mesh (cache (state i1)) (name l1))"
  from r1 fresh have e1: "el1 = Some (Path (className l1) k (mesh (cache (state i1)) (name l1))
                        ''none'' (pathGenerator (state i1)) st)"
    and m1': "memo1 = memo(k \<mapsto> st)"
    by (simp_all add: renderLayer_mesh [OF l1] memoize_fst memoize_snd k_def st_def)
  from m1' have m1: "memo1 k = Some st" by simp
  from layerRenderings_keeps [OF later m1] have m2: "memo2 k = Some st" .
  from r2 m2 have e2: "el2 = Some (Path (className l2) k (mesh (cache (state i2)) (name l2))
                        ''none'' (pathGenerator (state i2)) st)"
    by (simp add: renderLayer_mesh [OF l2(1,2)] memoize_fst l2(3) k_def)
  from renderLayer_keeps [OF r2 m2] have m3: "memo3 k = Some st" .
  from e1 e2 m3 show ?thesis by (simp add: k_def st_def)
qed

theorem mesh_style_memoized_by_key_witness:
  "\<exists>el1 m1 els m2 el2 m3 p1 p2.
     renderLayer (constructor demoUtils fitProps) Map.empty
       (demoLayer ''mesh'' ''borders'' True (StyleObject [''stroke'' \<mapsto> ''red''])) = Inr (el1, m1)
     \<and> layerRenderings m1
         [(constructor demoUtils fitProps,
           demoLayer ''mesh'' ''borders'' True (StyleObject [''stroke'' \<mapsto> ''green''])),
          (constructor demoUtils fitProps, demoLayer ''feature'' ''countries'' True NoStyle),
          (constructor demoUtils fitProps,
           demoLayer ''mesh'' ''coast'' True (StyleObject [''stroke'' \<mapsto> ''black'']))]
         = Inr (els, m2)
     \<and> renderLayer (constructor demoUtils fitProps) m2
       (demoLayer ''mesh'' ''borders'' True (StyleObject [''stroke'' \<mapsto> ''blue''])) = Inr (el2, m3)
     \<and> el1 = Some p1 \<and> el2 = Some p2 \<and> pathStyle p2 = pathStyle p1
     \<and> m3 ''mesh-borders'' = pathStyle p1"
proof -
  define l1 where "l1 = demoLayer ''mesh'' ''borders'' True (StyleObject [''stroke'' \<mapsto> ''red''])"
  define l2 where "l2 = demoLayer ''mesh'' ''borders'' True (StyleObject [''stroke'' \<mapsto> ''blue''])"
  define i where "i = constructor demoUtils fitProps"
  define cs where "cs =
         [(i, demoLayer ''mesh'' ''borders'' True (StyleObject [''stroke'' \<mapsto> ''green''])),
          (i, demoLayer ''feature'' ''countries'' True NoStyle),
          (i, demoLayer ''mesh'' ''coast'' True (StyleObject [''stroke'' \<mapsto> ''black'']))]"
  have t: "type l1 = ''mesh''" "visible l1" "type l2 = ''mesh''" "visible l2" "name l2 = name l1"
    and n: "''mesh-'' @ name l1 = ''mesh-borders''"
    by (simp_all add: l1_def l2_def demoLayer_def)
  obtain el1 m1 where r1: "renderLayer i Map.empty l1 = Inr (el1, m1)"
    using renderLayer_mesh [OF t(1,2)] by blast
  have "\<exists>els m2. layerRenderings m1 cs = Inr (els, m2)"
    by (simp add: cs_def i_def renderLayer_def memoize_def demo_defs op_defs Let_def
        split: option.splits)
  then obtain els m2 where c: "layerRenderings m1 cs = Inr (els, m2)" by blast
  obtain el2 m3 where r2: "renderLayer i m2 l2 = Inr (el2, m3)"
    using renderLayer_mesh [OF t(3,4)] by blast
  from mesh_style_memoized_by_key [OF t _ r1 c r2] obtain p1 p2 where
    p: "el1 = Some p1" "el2 = Some p2" "pathStyle p2 = pathStyle p1"
    "m3 (''mesh-'' @ name l1) = pathStyle p1"
    by auto
  from p(4) n have "m3 ''mesh-borders'' = pathStyle p1" by simp
  with r1 c r2 p(1,2,3) show ?thesis unfolding l1_def l2_def i_def cs_def by blast
qed

text \<open>
  Claim C5 as stated fails. After a call with the key \<open>mesh-borders\<close> and a red stroke,
  a call with the same key and a blue stroke returns the red stroke, not the style
  computed from its own argument.
\<close>

theorem mesh_style_stale_counterexample:
  "fst (memoize calcMeshLayerStyle
          (snd (memoize calcMeshLayerStyle Map.empty ''mesh-borders''
                  (StyleObject [''stroke'' \<mapsto> ''red'']) (None :: nat option)))
          ''mesh-borders'' (StyleObject [''stroke'' \<mapsto> ''blue'']) None) ''stroke''
     = Some ''red''
   \<and> calcMeshLayerStyle ''mesh-borders'' (StyleObject [''stroke'' \<mapsto> ''blue''])
        (None :: nat option) ''stroke''
     = Some ''blue''"
  by (simp add: memoize_def calcMeshLayerStyle_def computedStyle_def Let_def)

section \<open>Pointer events of mesh layers\<close>

lemma calcMeshLayerStyle_pointerEvents:
  "calcMeshLayerStyle k s ft ''pointerEvents'' =
     (case computedStyle s ft ''pointerEvents'' of None \<Rightarrow> Some ''none'' | Some v \<Rightarrow> Some v)"
  by (simp add: calcMeshLayerStyle_def Let_def map_add_def split: option.splits)

lemma renderLayer_pointerEvents:
  assumes inv: "\<forall>st. memo k = Some st \<longrightarrow> st ''pointerEvents'' = Some ''none''"
      and user: "visible l \<and> type l = ''mesh'' \<and> ''mesh-'' @ name l = k
           \<longrightarrow> computedStyle (style l) (mesh (cache (state i)) (name l)) ''pointerEvents'' = None"
      and r: "renderLayer i memo l = Inr (el, memo')"
  shows "(\<forall>st. memo' k = Some st \<longrightarrow> st ''pointerEvents'' = Some ''none'')
       \<and> (\<forall>p st. el = Some p \<and> pathKey p = Some k \<and> pathStyle p = Some st
             \<longrightarrow> st ''pointerEvents'' = Some ''none'')"
proof (cases "type l = ''mesh'' \<and> visible l")
  case True
  define k' where "k' = ''mesh-'' @ name l"
  define ft where "ft = mesh (cache (state i)) (name l)"
  from True r have el: "el = Some (Path (className l) k' ft ''none'' (pathGenerator (state i))
            (fst (memoize calcMeshLayerStyle memo k' (style l) ft)))"
    and m: "memo' = snd (memoize calcMeshLayerStyle memo k' (style l) ft)"
    by (simp_all add: renderLayer_mesh k'_def ft_def)
  show ?thesis
  proof (cases "k' = k")
    case same: True
    with True user have c: "calcMeshLayerStyle k (style l) ft ''pointerEvents'' = Some ''none''"
      by (simp add: calcMeshLayerStyle_pointerEvents ft_def k'_def)
    show ?thesis
    proof (cases "memo k")
      case None
      with el m c same show ?thesis by (simp add: memoize_fst memoize_snd)
    next
      case (Some st)
      with el m inv same show ?thesis by (simp add: memoize_fst memoize_snd)
    qed
  next
    case False
    with el m inv show ?thesis by (auto simp: memoize_snd split: option.splits)
  qed
next
  case False
  from renderLayer_not_mesh [OF False r] inv show ?thesis by auto
qed

lemma layerRenderings_pointerEvents:
  assumes inv: "\<forall>st. memo k = Some st \<longrightarrow> st ''pointerEvents'' = Some ''none''"
      and user: "\<forall>(i, l)\<in>set cs. visible l \<and> type l = ''mesh'' \<and> ''mesh-'' @ name l = k
           \<longrightarrow> computedStyle (style l) (mesh (cache (state i)) (name l)) ''pointerEvents'' = None"
      and r: "layerRenderings memo cs = Inr (els, memo')"
  shows "(\<forall>st. memo' k = Some st \<longrightarrow> st ''pointerEvents'' = Some ''none'')
       \<and> (\<forall>p st. Some p \<in> set els \<and> pathKey p = Some k \<and> pathStyle p = Some st
             \<longrightarrow> st ''pointerEvents'' = Some ''none'')"
  using assms
proof (induction cs arbitrary: memo els)
  case Nil
  then show ?case by simp
next
  case (Cons c cs)
  obtain i l where c: "c = (i, l)" by (cases c)
  from Cons.prems(3) c obtain el m1 els1 where
    h: "renderLayer i memo l = Inr (el, m1)" "layerRenderings m1 cs = Inr (els1, memo')"
       "els = el # els1"
    by (auto split: sum.splits prod.splits)
  from Cons.prems(2) c have u: "visible l \<and> type l = ''mesh'' \<and> ''mesh-'' @ name l = k
           \<longrightarrow> computedStyle (style l) (mesh (cache (state i)) (name l)) ''pointerEvents'' = None"
    by simp
  from renderLayer_pointerEvents [OF Cons.prems(1) u h(1)]
  have a: "\<forall>st. m1 k = Some st \<longrightarrow> st ''pointerEvents'' = Some ''none''"
    and b: "\<forall>p st. el = Some p \<and> pathKey p = Some k \<and> pathStyle p = Some st
             \<longrightarrow> st ''pointerEvents'' = Some ''none''"
    by blast+
  from Cons.prems(2) have "\<forall>(i, l)\<in>set cs. visible l \<and> type l = ''mesh'' \<and> ''mesh-'' @ name l = k
           \<longrightarrow> computedStyle (style l) (mesh (cache (state i)) (name l)) ''pointerEvents'' = None"
    by simp
  from Cons.IH [OF a this h(2)] b show ?case unfolding h(3) by auto
qed

text \<open>
  Claim C6, amended. \<open>calcMeshLayerStyle\<close> spreads the user's style over the base style,
  so it yields \<open>pointerEvents: none\<close> exactly when the style the user supplied (or the
  style its function returns) has no \<open>pointerEvents\<close> key, and the user's value
  otherwise. The rendered style is memoized by layer key. Hence take the layers a component
  has rendered since its construction, when the cache was empty: if none of the visible
  mesh layers of a name among them had a style with a \<open>pointerEvents\<close> key, every mesh
  path rendered for that name has \<open>pointerEvents: none\<close>, and so has the style cached
  for it.
\<close>

theorem mesh_pointer_events_default:
  assumes user: "\<forall>(i, l)\<in>set cs. visible l \<and> type l = ''mesh'' \<and> name l = n
           \<longrightarrow> computedStyle (style l) (mesh (cache (state i)) (name l)) ''pointerEvents'' = None"
      and r: "layerRenderings Map.empty cs = Inr (els, memo')"
  shows "(\<forall>p st. Some p \<in> set els \<and> pathKey p = Some (''mesh-'' @ n) \<and> pathStyle p = Some st
            \<longrightarrow> st ''pointerEvents'' = Some ''none'')
       \<and> (\<forall>st. memo' (''mesh-'' @ n) = Some st \<longrightarrow> st ''pointerEvents'' = Some ''none'')
       \<and> (\<forall>k s ft. calcMeshLayerStyle k s ft ''pointerEvents'' =
             (case computedStyle s ft ''pointerEvents'' of
                None \<Rightarrow> Some ''none''
              | Some v \<Rightarrow> Some v))"
proof -
  have inv: "\<forall>st. (Map.empty :: string \<rightharpoonup> style) (''mesh-'' @ n) = Some st
               \<longrightarrow> st ''pointerEvents'' = Some ''none''"
    by simp
  from user have u: "\<forall>(i, l)\<in>set cs. visible l \<and> type l = ''mesh'' \<and> ''mesh-'' @ name l = ''mesh-'' @ n
           \<longrightarrow> computedStyle (style l) (mesh (cache (state i)) (name l)) ''pointerEvents'' = None"
    by auto
  from layerRenderings_pointerEvents [OF inv u r] show ?thesis
    by (simp add: calcMeshLayerStyle_pointerEvents)
qed

theorem mesh_pointer_events_default_witness:
  "\<exists>els m p st.
     layerRenderings Map.empty
       (map (Pair (constructor demoUtils fitProps)) demoLayers
        @ [(constructor demoUtils fitProps,
            demoLayer ''mesh'' ''borders'' True (StyleObject [''stroke'' \<mapsto> ''red'']))])
       = Inr (els, m)
     \<and> length els = 3 \<and> els ! 2 = Some p
     \<and> pathKey p = Some ''mesh-borders'' \<and> pathStyle p = Some st
     \<and> st ''pointerEvents'' = Some ''none''"
proof -
  define cs where "cs = map (Pair (constructor demoUtils fitProps)) demoLayers
        @ [(constructor demoUtils fitProps,
            demoLayer ''mesh'' ''borders'' True (StyleObject [''stroke'' \<mapsto> ''red'']))]"
  have "\<exists>els m p st. layerRenderings Map.empty cs = Inr (els, m)
     \<and> length els = 3 \<and> els ! 2 = Some p
     \<and> pathKey p = Some ''mesh-borders'' \<and> pathStyle p = Some st"
    by (simp add: cs_def renderLayer_def memoize_def demo_defs op_defs Let_def)
  then obtain els m p st where e: "layerRenderings Map.empty cs = Inr (els, m)"
    "length els = 3" "els ! 2 = Some p"
    "pathKey p = Some ''mesh-borders''" "pathStyle p = Some st"
    by blast
  have user: "\<forall>(i, l)\<in>set cs. visible l \<and> type l = ''mesh'' \<and> name l = ''borders''
           \<longrightarrow> computedStyle (style l) (mesh (cache (state i)) (name l)) ''pointerEvents'' = None"
    by (simp add: cs_def demoLayers_def demoLayer_def computedStyle_def)
  have "els ! 2 \<in> set els" using e(2) by (intro nth_mem) simp
  with e(3) have "Some p \<in> set els" by simp
  with mesh_pointer_events_default [OF user e(1)] e(4,5)
  have "st ''pointerEvents'' = Some ''none''" by auto
  with e show ?thesis unfolding cs_def by blast
qed

text \<open>
  Claim C6 as stated fails. A mesh layer whose style object sets \<open>pointerEvents\<close> to
  \<open>all\<close> is rendered with \<open>pointerEvents: all\<close>.
\<close>

theorem mesh_pointer_events_counterexample:
  "calcMeshLayerStyle ''mesh-borders'' (StyleObject [''pointerEvents'' \<mapsto> ''all''])
     (None :: nat option) ''pointerEvents'' = Some ''all''
   \<and> meshPointerEvents
       (render (constructor demoUtils
          (fitProps\<lparr>layers := Obj 2 [demoLayer ''mesh'' ''borders'' True
                                       (StyleObject [''pointerEvents'' \<mapsto> ''all''])]\<rparr>)))
     = [Some ''all'']"
  by (simp add: calcMeshLayerStyle_def computedStyle_def meshPointerEvents_def render_def
      renderLayers_def renderLayer_def memoize_def pathStyles_def List.map_filter_def
      demo_defs op_defs Let_def)

section \<open>Zero width or height\<close>

lemma renderLayer_size:
  "renderLayer (i\<lparr>props := (props i)\<lparr>width := w, height := h\<rparr>\<rparr>) memo l = renderLayer i memo l"
  by (simp add: renderLayer_def Let_def split: option.splits)

lemma renderLayersFrom_size:
  "renderLayersFrom (i\<lparr>props := (props i)\<lparr>width := w, height := h\<rparr>\<rparr>) memo ls
     = renderLayersFrom i memo ls"
  by (induction ls arbitrary: memo)
     (simp_all add: renderLayer_size split: sum.splits prod.splits)

text \<open>
  Claim C9, amended. The check for a zero size is in the responsive container: when the
  measured width or height is zero (or NaN) it renders nothing, so a choropleth inside it
  is not rendered, and otherwise it renders its children with the measured size. The
  choropleth itself has no such check: the layers it renders do not depend on its width
  and height.
\<close>

theorem zero_size_guard_is_in_container:
  "(w = Fin 0 \<or> h = Fin 0 \<longrightarrow> ResponsiveContainer w h children = None)
   \<and> (falsy w \<or> falsy h \<longrightarrow> ResponsiveContainer w h children = None)
   \<and> (\<not> falsy w \<and> \<not> falsy h \<longrightarrow>
        ResponsiveContainer w h children =
          Some (map (map_option (\<lambda>c. c\<lparr>width := w, height := h\<rparr>)) children))
   \<and> renderLayers (i\<lparr>props := (props i)\<lparr>width := w, height := h\<rparr>\<rparr>) = renderLayers i"
proof -
  have "ResponsiveContainer w h children =
          (if falsy w \<or> falsy h then None
           else Some (map (map_option (\<lambda>c. c\<lparr>width := w, height := h\<rparr>)) children))"
    by (simp add: ResponsiveContainer_def map_option_case)
  moreover have "w = Fin 0 \<or> h = Fin 0 \<Longrightarrow> falsy w \<or> falsy h"
    by (auto simp: falsy_def)
  moreover have "renderLayers (i\<lparr>props := (props i)\<lparr>width := w, height := h\<rparr>\<rparr>) = renderLayers i"
    by (simp add: renderLayers_def renderLayersFrom_size)
  ultimately show ?thesis by auto
qed

theorem zero_size_guard_is_in_container_witness:
  "ResponsiveContainer (Fin 0) (Fin 400) [Some fitProps] = None
   \<and> ResponsiveContainer (Fin 600) (Fin 0) [Some fitProps] = None
   \<and> ResponsiveContainer (Fin 300) (Fin 200) [Some fitProps]
       = Some [Some (fitProps\<lparr>width := Fin 300, height := Fin 200\<rparr>)]"
  using zero_size_guard_is_in_container [of "Fin 0" "Fin 400" "[Some fitProps]"
      "constructor demoUtils fitProps"]
    zero_size_guard_is_in_container [of "Fin 600" "Fin 0" "[Some fitProps]"
      "constructor demoUtils fitProps"]
    zero_size_guard_is_in_container [of "Fin 300" "Fin 200" "[Some fitProps]"
      "constructor demoUtils fitProps"]
  by (simp add: falsy_def)

text \<open>
  Claim C9 as stated fails for the choropleth on its own. Resized to a width and height
  of zero, the mounted example still renders its two layers, and so does an example
  constructed with a width of zero.
\<close>

theorem zero_size_render_counterexample:
  "length (drawn (renderAfter (runMounted demoUtils fitProps
      [PropsUpdate (fitProps\<lparr>width := Fin 0, height := Fin 0\<rparr>)]))) = 2
   \<and> length (drawn (render (constructor demoUtils (demoProps (Obj 2 demoLayers) (Fin 0) (Fin 400)))))
       = 2"
  by (simp add: drawn_def renderAfter_def render_def renderLayers_def renderLayer_def memoize_def
      List.map_filter_def demo_defs op_defs Let_def)


end
